theory Spec2Isabelle
  imports Main
begin

section \<open>Regular expressions, as far as \<open>rxEmail\<close> needs them\<close>

text \<open>
  \<open>isEmailValid\<close> compiles one pattern with \<open>regexp.MustCompile\<close> and asks
  \<open>MatchString\<close>. The pattern starts with \<open>^\<close> and ends with \<open>$\<close> (no
  multi-line flag), so \<open>MatchString\<close> holds exactly when the whole string is in the
  language of the expression between the two anchors. Every class of the pattern holds
  ASCII characters only, so a byte of a multi-byte rune never matches and matching
  byte by byte is matching rune by rune. A Go string is a byte sequence and \<open>len\<close>
  counts bytes: the model's \<open>string\<close> and \<open>length\<close>.
\<close>

datatype rexp =
    Zero
  | One
  | Class "(char \<times> char) list"
  | Plus rexp rexp
  | Times rexp rexp
  | Star rexp

text \<open>A class is a list of ranges \<open>lo-hi\<close>; a single character is the range \<open>c-c\<close>.\<close>

definition in_range :: "char \<Rightarrow> char \<times> char \<Rightarrow> bool" where
  "in_range c r = ((of_char (fst r) :: nat) \<le> of_char c \<and> (of_char c :: nat) \<le> of_char (snd r))"

definition in_class :: "(char \<times> char) list \<Rightarrow> char \<Rightarrow> bool" where
  "in_class rs c = list_ex (in_range c) rs"

definition Lit :: "char \<Rightarrow> rexp" where
  "Lit c = Class [(c, c)]"

definition Opt :: "rexp \<Rightarrow> rexp" where
  "Opt r = Plus One r"

text \<open>The counted repetition \<open>r{m,n}\<close>: \<open>m\<close> copies of \<open>r\<close>, then up to \<open>n - m\<close> more.\<close>

fun rep :: "rexp \<Rightarrow> nat \<Rightarrow> nat \<Rightarrow> rexp" where
  "rep r 0 0 = One"
| "rep r 0 (Suc n) = Opt (Times r (rep r 0 n))"
| "rep r (Suc m) 0 = Zero"
| "rep r (Suc m) (Suc n) = Times r (rep r m n)"

subsection \<open>The language of an expression\<close>

definition conc :: "string set \<Rightarrow> string set \<Rightarrow> string set" where
  "conc A B = {u @ v | u v. u \<in> A \<and> v \<in> B}"

inductive_set star :: "string set \<Rightarrow> string set" for A :: "string set" where
  star_nil: "[] \<in> star A"
| star_app: "u \<in> A \<Longrightarrow> v \<in> star A \<Longrightarrow> u @ v \<in> star A"

fun lang :: "rexp \<Rightarrow> string set" where
  "lang Zero = {}"
| "lang One = {[]}"
| "lang (Class rs) = {[c] | c. in_class rs c}"
| "lang (Plus r s) = lang r \<union> lang s"
| "lang (Times r s) = conc (lang r) (lang s)"
| "lang (Star r) = star (lang r)"

subsection \<open>Matching by derivatives\<close>

fun nullable :: "rexp \<Rightarrow> bool" where
  "nullable Zero = False"
| "nullable One = True"
| "nullable (Class rs) = False"
| "nullable (Plus r s) = (nullable r \<or> nullable s)"
| "nullable (Times r s) = (nullable r \<and> nullable s)"
| "nullable (Star r) = True"

fun deriv :: "char \<Rightarrow> rexp \<Rightarrow> rexp" where
  "deriv c Zero = Zero"
| "deriv c One = Zero"
| "deriv c (Class rs) = (if in_class rs c then One else Zero)"
| "deriv c (Plus r s) = Plus (deriv c r) (deriv c s)"
| "deriv c (Times r s) =
     (if nullable r then Plus (Times (deriv c r) s) (deriv c s) else Times (deriv c r) s)"
| "deriv c (Star r) = Times (deriv c r) (Star r)"

fun MatchString :: "rexp \<Rightarrow> string \<Rightarrow> bool" where
  "MatchString r [] = nullable r"
| "MatchString r (c # cs) = MatchString (deriv c r) cs"

section \<open>The email validator\<close>

text \<open>
  \<^verbatim>\<open>^[a-zA-Z0-9.!#$%&'*+/=?^_`{|}~-]{1,64}@[a-zA-Z0-9](?:[a-zA-Z0-9-]{0,61}[a-zA-Z0-9])?\<close>
  \<^verbatim>\<open>(?:\.[a-zA-Z0-9](?:[a-zA-Z0-9-]{0,61}[a-zA-Z0-9])?)*$\<close>
\<close>

definition alnum :: "(char \<times> char) list" where
  "alnum = [(CHR ''a'', CHR ''z''), (CHR ''A'', CHR ''Z''), (CHR ''0'', CHR ''9'')]"

definition localChars :: "(char \<times> char) list" where
  "localChars = alnum @ map (\<lambda>c. (c, c))
     [CHR ''.'', CHR ''!'', CHR ''#'', CHR ''$'', CHR ''%'', CHR ''&'', CHR 0x27, CHR ''*'',
      CHR ''+'', CHR ''/'', CHR ''='', CHR ''?'', CHR ''^'', CHR ''_'', CHR 0x60, CHR ''{'',
      CHR ''|'', CHR ''}'', CHR ''~'', CHR ''-'']"

definition alnumHyphen :: "(char \<times> char) list" where
  "alnumHyphen = alnum @ [(CHR ''-'', CHR ''-'')]"

definition rxLabel :: rexp where
  "rxLabel = Times (Class alnum) (Opt (Times (rep (Class alnumHyphen) 0 61) (Class alnum)))"

definition rxEmail :: rexp where
  "rxEmail =
     Times (rep (Class localChars) 1 64)
       (Times (Lit CHR ''@'')
         (Times rxLabel (Star (Times (Lit CHR ''.'') rxLabel))))"

definition isEmailValid :: "string \<Rightarrow> bool" where
  "isEmailValid email =
     (if length email < 3 \<or> length email > 254 \<or> \<not> MatchString rxEmail email then False
      else True)"

section \<open>Records, attribute values and the store client\<close>

text \<open>
  The struct \<open>User\<close> is declared twice, in the main file and in package \<open>user\<close>,
  with the same three string fields and the same JSON names; one record stands for both.
\<close>

record User =
  Email :: string
  FirstName :: string
  LastName :: string

text \<open>\<open>ErrorMsg\<close> is a \<open>*string\<close>: \<open>None\<close> is the nil pointer.\<close>

record ErrorBody =
  ErrorMsg :: "string option"

text \<open>
  Go's \<open>error\<close> values: \<open>errors.New\<close> with its text, the type error of
  \<open>dynamodbattribute\<close> with the kind of value it met, and the errors of the JSON
  decoder and of the store client, of which the handlers only test \<open>err != nil\<close>.
\<close>

datatype error =
    errors_New string
  | UnmarshalTypeError string
  | LibraryError string

text \<open>
  A nil pointer dereference is the only run-time panic the handlers can raise. A handler
  that panics returns no response.
\<close>

datatype panic = NilPointerDereference

text \<open>
  \<open>dynamodb.AttributeValue\<close> with one member set. The members for binary values,
  sets, lists and maps are left out: the handlers build none, and \<open>User\<close> has no
  field for one.
\<close>

datatype AttributeValue =
    S string
  | N string
  | BOOL bool
  | NULL bool

type_synonym item = "string \<rightharpoonup> AttributeValue"

text \<open>
  The inputs and outputs of the four calls, with the members the handlers set or read:
  \<open>GetItemInput Key TableName\<close>, \<open>GetItemOutput Item\<close>, \<open>ScanInput TableName\<close>,
  \<open>ScanOutput Items LastEvaluatedKey\<close>, \<open>PutItemInput Item TableName\<close>,
  \<open>PutItemOutput Attributes\<close>, \<open>DeleteItemInput Key TableName\<close>,
  \<open>DeleteItemOutput Attributes\<close>. A scan that stopped before the end of the table says
  so in \<open>LastEvaluatedKey\<close>, the key to go on from; it is empty after a whole scan.
  \<open>ScanInput\<close> has no \<open>ExclusiveStartKey\<close> and no \<open>Limit\<close>: the handlers set neither.
\<close>

datatype GetItemInput = GetItemInput item string
datatype GetItemOutput = GetItemOutput item
datatype ScanInput = ScanInput string
datatype ScanOutput = ScanOutput "item list" item
datatype PutItemInput = PutItemInput item string
datatype PutItemOutput = PutItemOutput item
datatype DeleteItemInput = DeleteItemInput item string
datatype DeleteItemOutput = DeleteItemOutput item

text \<open>
  \<open>dynamodbiface.DynamoDBAPI\<close>, as far as the handlers call it. The client belongs to
  the AWS SDK, so it is a parameter of every handler: a call takes the state \<open>'s\<close> of
  the remote side and returns either an error or an output, with the state after the
  call. Nothing is assumed of a call: any of them may fail, and a read may change the
  state.
\<close>

record 's DynamoDBAPI =
  GetItem :: "GetItemInput \<Rightarrow> 's \<Rightarrow> (error + GetItemOutput) \<times> 's"
  Scan :: "ScanInput \<Rightarrow> 's \<Rightarrow> (error + ScanOutput) \<times> 's"
  PutItem :: "PutItemInput \<Rightarrow> 's \<Rightarrow> (error + PutItemOutput) \<times> 's"
  DeleteItem :: "DeleteItemInput \<Rightarrow> 's \<Rightarrow> (error + DeleteItemOutput) \<times> 's"

subsection \<open>\<open>dynamodbattribute.MarshalMap\<close> and \<open>UnmarshalMap\<close> on \<open>User\<close>\<close>

text \<open>
  The encoder names each attribute by the field's \<open>json\<close> tag. A string field
  becomes the member \<open>S\<close>, except that the empty string becomes \<open>NULL: true\<close>.
  No field of \<open>User\<close> can fail to encode.
\<close>

definition encodeString :: "string \<Rightarrow> AttributeValue" where
  "encodeString s = (if length s = 0 then NULL True else S s)"

definition MarshalMap :: "User \<Rightarrow> error + item" where
  "MarshalMap u =
     Inr [''email'' \<mapsto> encodeString (Email u),
          ''firstName'' \<mapsto> encodeString (FirstName u),
          ''lastName'' \<mapsto> encodeString (LastName u)]"

text \<open>
  The decoder starts from the zero \<open>User\<close>, visits every attribute of the item and
  sets the field the attribute's name stands for: the field of that very name, or else
  the field whose name equals it under \<open>strings.EqualFold\<close>. Against a name of ASCII
  letters, \<open>EqualFold\<close> accepts each letter in either case, and moreover the long s
  (U+017F, the bytes C5 BF) for an \<open>s\<close> and the Kelvin sign (U+212A, the bytes
  E2 84 AA) for a \<open>k\<close>: \<open>variants\<close> lists the spellings of one letter and
  \<open>spellings\<close> those of a name, the name itself first. No two fields of \<open>User\<close>
  share a spelling.

  Into a string field, \<open>NULL\<close> stores the zero value, \<open>S\<close> the string, \<open>N\<close> the
  number's text, and \<open>BOOL\<close> is a type error, which ends the decoding. So the decoder
  fails exactly when one of the attributes that stand for a field fails, and a field
  with no attribute stays empty: the empty item decodes to the zero \<open>User\<close>.

  When an item holds several attributes for one field (say \<open>email\<close> and \<open>EMAIL\<close>),
  Go sets the field once for each, in the iteration order of the map, which the
  language leaves open; the last one stays. The model takes the first in the order of
  \<open>spellings\<close>. The two agree whenever those attributes decode alike, and whenever
  there is at most one of them.
\<close>

fun decodeString :: "AttributeValue \<Rightarrow> error + string" where
  "decodeString (S s) = Inr s"
| "decodeString (N n) = Inr n"
| "decodeString (BOOL b) = Inl (UnmarshalTypeError ''bool'')"
| "decodeString (NULL b) = Inr []"

definition swapCase :: "char \<Rightarrow> char option" where
  "swapCase = map_of
     (zip ''abcdefghijklmnopqrstuvwxyz'' ''ABCDEFGHIJKLMNOPQRSTUVWXYZ'' @
      zip ''ABCDEFGHIJKLMNOPQRSTUVWXYZ'' ''abcdefghijklmnopqrstuvwxyz'')"

definition variants :: "char \<Rightarrow> string list" where
  "variants c =
     (case swapCase c of None \<Rightarrow> [[c]] | Some d \<Rightarrow> [[c], [d]])
     @ (if c = CHR ''s'' \<or> c = CHR ''S'' then [[CHR 0xC5, CHR 0xBF]]
        else if c = CHR ''k'' \<or> c = CHR ''K'' then [[CHR 0xE2, CHR 0x84, CHR 0xAA]]
        else [])"

fun spellings :: "string \<Rightarrow> string list" where
  "spellings [] = [[]]"
| "spellings (c # cs) = concat (map (\<lambda>v. map ((@) v) (spellings cs)) (variants c))"

definition decodeField :: "item \<Rightarrow> string \<Rightarrow> error + string" where
  "decodeField m name =
     (let ds = map decodeString (List.map_filter m (spellings name)) in
      case filter isl ds of
        err # _ \<Rightarrow> err
      | [] \<Rightarrow> (case ds of [] \<Rightarrow> Inr [] | d # _ \<Rightarrow> d))"

definition UnmarshalMap :: "item \<Rightarrow> error + User" where
  "UnmarshalMap m =
     (case decodeField m ''email'' of Inl err \<Rightarrow> Inl err | Inr e \<Rightarrow>
      case decodeField m ''firstName'' of Inl err \<Rightarrow> Inl err | Inr f \<Rightarrow>
      case decodeField m ''lastName'' of Inl err \<Rightarrow> Inl err | Inr l \<Rightarrow>
        Inr \<lparr>Email = e, FirstName = f, LastName = l\<rparr>)"

section \<open>Requests and responses\<close>

text \<open>
  \<open>events.APIGatewayProxyRequest\<close>, with the members the handlers read, and the
  path, which they do not read. \<open>RequestBody\<close> is the request's member \<open>Body\<close>;
  the response has a member of that name too.
\<close>

record APIGatewayProxyRequest =
  HTTPMethod :: string
  Path :: string
  QueryStringParameters :: "string \<rightharpoonup> string"
  RequestBody :: string

text \<open>
  The values the handlers hand to \<open>APIResponse\<close> as \<open>body interface{}\<close>.
\<close>

datatype body =
    BodyNil
  | BodyErrorBody ErrorBody
  | BodyUser User
  | BodyScanOutput ScanOutput
  | BodyDeleteItemOutput DeleteItemOutput

text \<open>
  The text of a response body. \<open>json.Marshal\<close> writes the four characters
  \<open>null\<close> for a nil value, and a JSON object for a struct. How the object is spelled
  (key order, string escapes, the members of the SDK's output structs) is the
  encoder's business: \<open>Marshalled v\<close> stands for the text of the value \<open>v\<close>.
\<close>

datatype body_text =
    Literal string
  | Marshalled body

definition json_Marshal :: "body \<Rightarrow> error + body_text" where
  "json_Marshal v = Inr (case v of BodyNil \<Rightarrow> Literal ''null'' | _ \<Rightarrow> Marshalled v)"

record APIGatewayProxyResponse =
  StatusCode :: int
  Headers :: "string \<rightharpoonup> string"
  Body :: body_text

definition StatusOK :: int where "StatusOK = 200"
definition StatusCreated :: int where "StatusCreated = 201"
definition StatusBadRequest :: int where "StatusBadRequest = 400"
definition StatusMethodNotAllowed :: int where "StatusMethodNotAllowed = 405"
definition StatusUnprocessableEntity :: int where "StatusUnprocessableEntity = 422"

section \<open>The main file\<close>

definition tableName :: string where
  "tableName = ''LambdaInGoUser''"

definition ErrorInvalidUserData :: string where
  "ErrorInvalidUserData = ''Invalid User Data''"
definition ErrorMethodNotAllowed :: string where
  "ErrorMethodNotAllowed = ''Method Not Allowed''"
definition ErrorFailedToUnmarshalRecord :: string where
  "ErrorFailedToUnmarshalRecord = ''Failed to unmarshal record''"
definition ErrorInvalidEmail :: string where
  "ErrorInvalidEmail = ''Invalid Email''"
definition ErrorFailedToFetchRecord :: string where
  "ErrorFailedToFetchRecord = ''Failed to fetch record''"
definition ErrorCouldNotMarshalItem :: string where
  "ErrorCouldNotMarshalItem = ''Could not marshal item''"
definition ErrorCouldNotDeleteItem :: string where
  "ErrorCouldNotDeleteItem = ''Could not delete item''"
definition ErrorCouldNotDynamoPutItem :: string where
  "ErrorCouldNotDynamoPutItem = ''Could not Dynamo Put Item Error''"
definition ErrorUserAlreadyExists :: string where
  "ErrorUserAlreadyExists = ''User already exists''"
definition ErrorUserDoesNotExists :: string where
  "ErrorUserDoesNotExists = ''User does not exist''"

text \<open>\<open>ErrorBody{&msg}\<close> as a response body.\<close>

definition errorBody :: "string \<Rightarrow> body" where
  "errorBody msg = BodyErrorBody \<lparr>ErrorMsg = Some msg\<rparr>"

text \<open>The error of \<open>json.Marshal\<close> is dropped: the body is then the empty text.\<close>

definition APIResponse :: "int \<Rightarrow> body \<Rightarrow> APIGatewayProxyResponse" where
  "APIResponse status b =
     \<lparr>StatusCode = status,
      Headers = [''Content-Type'' \<mapsto> ''application/json''],
      Body = (case json_Marshal b of Inl err \<Rightarrow> Literal [] | Inr stringBody \<Rightarrow> stringBody)\<rparr>"

text \<open>
  A Go map lookup of a key that is not there gives the zero value, here the empty string.
\<close>

definition queryParam :: "APIGatewayProxyRequest \<Rightarrow> string \<Rightarrow> string" where
  "queryParam req k = (case QueryStringParameters req k of None \<Rightarrow> [] | Some v \<Rightarrow> v)"

text \<open>
  \<open>fetchUser\<close> returns \<open>(*User, *ErrorBody)\<close>, one of them nil: \<open>Inl\<close> is
  \<open>(nil, &ErrorBody{...})\<close> and \<open>Inr\<close> is \<open>(&item, nil)\<close>.
\<close>

definition fetchUser :: "'s DynamoDBAPI \<Rightarrow> string \<Rightarrow> 's \<Rightarrow> (ErrorBody + User) \<times> 's" where
  "fetchUser dynaClient email s =
     (case GetItem dynaClient (GetItemInput [''email'' \<mapsto> S email] tableName) s of
        (Inl err, s') \<Rightarrow> (Inl \<lparr>ErrorMsg = Some ErrorFailedToFetchRecord\<rparr>, s')
      | (Inr (GetItemOutput resultItem), s') \<Rightarrow>
          (case UnmarshalMap resultItem of
             Inl err \<Rightarrow> (Inl \<lparr>ErrorMsg = Some ErrorFailedToUnmarshalRecord\<rparr>, s')
           | Inr item \<Rightarrow> (Inr item, s')))"

text \<open>
  Every handler returns \<open>(*events.APIGatewayProxyResponse, error)\<close> with the error
  always nil; the model returns the response (\<open>Inr\<close>), or the panic that ended the call
  (\<open>Inl\<close>), and the state of the store. Log output is not modelled.
\<close>

definition showUser ::
  "'s DynamoDBAPI \<Rightarrow> string \<Rightarrow> 's \<Rightarrow> (panic + APIGatewayProxyResponse) \<times> 's" where
  "showUser dynaClient email s =
     (case fetchUser dynaClient email s of
        (Inl err, s') \<Rightarrow> (Inr (APIResponse StatusBadRequest (BodyErrorBody err)), s')
      | (Inr user, s') \<Rightarrow> (Inr (APIResponse StatusOK (BodyUser user)), s'))"

definition listUsers ::
  "'s DynamoDBAPI \<Rightarrow> 's \<Rightarrow> (panic + APIGatewayProxyResponse) \<times> 's" where
  "listUsers dynaClient s =
     (case Scan dynaClient (ScanInput tableName) s of
        (Inl err, s') \<Rightarrow> (Inr (APIResponse StatusBadRequest (errorBody ErrorFailedToFetchRecord)), s')
      | (Inr result, s') \<Rightarrow> (Inr (APIResponse StatusOK (BodyScanOutput result)), s'))"

definition getUser ::
  "'s DynamoDBAPI \<Rightarrow> APIGatewayProxyRequest \<Rightarrow> 's \<Rightarrow> (panic + APIGatewayProxyResponse) \<times> 's" where
  "getUser dynaClient req s =
     (let email = queryParam req ''email'' in
      if length email > 0 then showUser dynaClient email s
      else listUsers dynaClient s)"

text \<open>
  \<open>json.Unmarshal\<close> into a \<open>User\<close> belongs to the standard library; the handlers
  that read a body take it as the parameter \<open>unmarshal\<close>.

  \<open>currentUser, _ := fetchUser(user.Email)\<close> drops the error, and
  \<open>currentUser.Email\<close> dereferences the pointer: when \<open>fetchUser\<close> returned
  \<open>(nil, &ErrorBody{...})\<close> that is a nil pointer dereference.
\<close>

definition createUser ::
  "(string \<Rightarrow> error + User) \<Rightarrow> 's DynamoDBAPI \<Rightarrow> APIGatewayProxyRequest \<Rightarrow> 's
     \<Rightarrow> (panic + APIGatewayProxyResponse) \<times> 's" where
  "createUser unmarshal dynaClient req s =
     (case unmarshal (RequestBody req) of
        Inl err \<Rightarrow>
          (Inr (APIResponse StatusUnprocessableEntity (errorBody ErrorInvalidUserData)), s)
      | Inr user \<Rightarrow>
          if \<not> isEmailValid (Email user) then
            (Inr (APIResponse StatusBadRequest (errorBody ErrorInvalidEmail)), s)
          else
            (case fetchUser dynaClient (Email user) s of
               (Inl _, s1) \<Rightarrow> (Inl NilPointerDereference, s1)
             | (Inr currentUser, s1) \<Rightarrow>
                 if length (Email currentUser) \<noteq> 0 then
                   (Inr (APIResponse StatusBadRequest (errorBody ErrorUserAlreadyExists)), s1)
                 else
                   (case MarshalMap user of
                      Inl err \<Rightarrow>
                        (Inr (APIResponse StatusBadRequest (errorBody ErrorCouldNotMarshalItem)), s1)
                    | Inr av \<Rightarrow>
                        (case PutItem dynaClient (PutItemInput av tableName) s1 of
                           (Inl err, s2) \<Rightarrow>
                             (Inr (APIResponse StatusBadRequest
                                    (errorBody ErrorCouldNotDynamoPutItem)), s2)
                         | (Inr result, s2) \<Rightarrow>
                             (Inr (APIResponse StatusCreated BodyNil), s2)))))"

definition updateUser ::
  "(string \<Rightarrow> error + User) \<Rightarrow> 's DynamoDBAPI \<Rightarrow> APIGatewayProxyRequest \<Rightarrow> 's
     \<Rightarrow> (panic + APIGatewayProxyResponse) \<times> 's" where
  "updateUser unmarshal dynaClient req s =
     (case unmarshal (RequestBody req) of
        Inl err \<Rightarrow>
          (Inr (APIResponse StatusUnprocessableEntity (errorBody ErrorInvalidEmail)), s)
      | Inr user \<Rightarrow>
          (case fetchUser dynaClient (Email user) s of
             (Inl _, s1) \<Rightarrow> (Inl NilPointerDereference, s1)
           | (Inr currentUser, s1) \<Rightarrow>
               if length (Email currentUser) = 0 then
                 (Inr (APIResponse StatusBadRequest (errorBody ErrorUserDoesNotExists)), s1)
               else
                 (case MarshalMap user of
                    Inl err \<Rightarrow>
                      (Inr (APIResponse StatusBadRequest (errorBody ErrorCouldNotMarshalItem)), s1)
                  | Inr av \<Rightarrow>
                      (case PutItem dynaClient (PutItemInput av tableName) s1 of
                         (Inl err, s2) \<Rightarrow>
                           (Inr (APIResponse StatusBadRequest
                                  (errorBody ErrorCouldNotDynamoPutItem)), s2)
                       | (Inr result, s2) \<Rightarrow>
                           (Inr (APIResponse StatusCreated BodyNil), s2)))))"

definition deleteUser ::
  "'s DynamoDBAPI \<Rightarrow> APIGatewayProxyRequest \<Rightarrow> 's \<Rightarrow> (panic + APIGatewayProxyResponse) \<times> 's" where
  "deleteUser dynaClient req s =
     (let email = queryParam req ''email'' in
      case DeleteItem dynaClient (DeleteItemInput [''email'' \<mapsto> S email] tableName) s of
        (Inl err, s') \<Rightarrow> (Inr (APIResponse StatusBadRequest (errorBody ErrorCouldNotDeleteItem)), s')
      | (Inr result, s') \<Rightarrow> (Inr (APIResponse StatusOK (BodyDeleteItemOutput result)), s'))"

definition handler ::
  "(string \<Rightarrow> error + User) \<Rightarrow> 's DynamoDBAPI \<Rightarrow> APIGatewayProxyRequest \<Rightarrow> 's
     \<Rightarrow> (panic + APIGatewayProxyResponse) \<times> 's" where
  "handler unmarshal dynaClient req s =
     (if HTTPMethod req = ''GET'' then getUser dynaClient req s
      else if HTTPMethod req = ''POST'' then createUser unmarshal dynaClient req s
      else if HTTPMethod req = ''PUT'' then updateUser unmarshal dynaClient req s
      else if HTTPMethod req = ''DELETE'' then deleteUser dynaClient req s
      else (Inr (APIResponse StatusMethodNotAllowed (errorBody ErrorMethodNotAllowed)), s))"

section \<open>Package \<open>user\<close>\<close>

definition user_ErrorFailedToUnmarshalRecord :: string where
  "user_ErrorFailedToUnmarshalRecord = ''failed to unmarshal record''"
definition user_ErrorFailedToFetchRecord :: string where
  "user_ErrorFailedToFetchRecord = ''failed to fetch record''"
definition user_ErrorInvalidUserData :: string where
  "user_ErrorInvalidUserData = ''invalid user data''"
definition user_ErrorInvalidEmail :: string where
  "user_ErrorInvalidEmail = ''invalid email''"
definition user_ErrorCouldNotMarshalItem :: string where
  "user_ErrorCouldNotMarshalItem = ''could not marshal item''"
definition user_ErrorCouldNotDeleteItem :: string where
  "user_ErrorCouldNotDeleteItem = ''could not delete item''"
definition user_ErrorCouldNotDynamoPutItem :: string where
  "user_ErrorCouldNotDynamoPutItem = ''could not dynamo put item error''"
definition user_ErrorUserAlreadyExists :: string where
  "user_ErrorUserAlreadyExists = ''user.User already exists''"
definition user_ErrorUserDoesNotExists :: string where
  "user_ErrorUserDoesNotExists = ''user.User does not exist''"

text \<open>
  The functions of the package return \<open>(*User, error)\<close>, one of them nil: \<open>Inl\<close>
  is \<open>(nil, err)\<close> and \<open>Inr\<close> is \<open>(&u, nil)\<close>. The table name and the client are
  arguments.
\<close>

definition FetchUser ::
  "string \<Rightarrow> string \<Rightarrow> 's DynamoDBAPI \<Rightarrow> 's \<Rightarrow> (error + User) \<times> 's" where
  "FetchUser email table dynaClient s =
     (case GetItem dynaClient (GetItemInput [''email'' \<mapsto> S email] table) s of
        (Inl err, s') \<Rightarrow> (Inl (errors_New user_ErrorFailedToFetchRecord), s')
      | (Inr (GetItemOutput resultItem), s') \<Rightarrow>
          (case UnmarshalMap resultItem of
             Inl err \<Rightarrow> (Inl (errors_New user_ErrorFailedToUnmarshalRecord), s')
           | Inr item \<Rightarrow> (Inr item, s')))"

definition FetchUsers ::
  "string \<Rightarrow> 's DynamoDBAPI \<Rightarrow> 's \<Rightarrow> (error + ScanOutput) \<times> 's" where
  "FetchUsers table dynaClient s =
     (case Scan dynaClient (ScanInput table) s of
        (Inl err, s') \<Rightarrow> (Inl (errors_New user_ErrorFailedToFetchRecord), s')
      | (Inr result, s') \<Rightarrow> (Inr result, s'))"

text \<open>
  \<open>CreateUser\<close> calls the package's own \<open>isEmailValid\<close>, which \<open>user.go\<close> does
  not define: it is the parameter \<open>valid\<close>. The lookup's error is dropped and the
  pointer dereferenced, as in the main file.
\<close>

definition CreateUser ::
  "(string \<Rightarrow> bool) \<Rightarrow> (string \<Rightarrow> error + User) \<Rightarrow> APIGatewayProxyRequest \<Rightarrow> string
     \<Rightarrow> 's DynamoDBAPI \<Rightarrow> 's \<Rightarrow> (panic + (error + User)) \<times> 's" where
  "CreateUser valid unmarshal req table dynaClient s =
     (case unmarshal (RequestBody req) of
        Inl err \<Rightarrow> (Inr (Inl (errors_New user_ErrorInvalidUserData)), s)
      | Inr u \<Rightarrow>
          if \<not> valid (Email u) then (Inr (Inl (errors_New user_ErrorInvalidEmail)), s)
          else
            (case FetchUser (Email u) table dynaClient s of
               (Inl _, s1) \<Rightarrow> (Inl NilPointerDereference, s1)
             | (Inr currentUser, s1) \<Rightarrow>
                 if length (Email currentUser) \<noteq> 0 then
                   (Inr (Inl (errors_New user_ErrorUserAlreadyExists)), s1)
                 else
                   (case MarshalMap u of
                      Inl err \<Rightarrow> (Inr (Inl (errors_New user_ErrorCouldNotMarshalItem)), s1)
                    | Inr av \<Rightarrow>
                        (case PutItem dynaClient (PutItemInput av table) s1 of
                           (Inl err, s2) \<Rightarrow>
                             (Inr (Inl (errors_New user_ErrorCouldNotDynamoPutItem)), s2)
                         | (Inr _, s2) \<Rightarrow> (Inr (Inr u), s2)))))"

definition UpdateUser ::
  "(string \<Rightarrow> error + User) \<Rightarrow> APIGatewayProxyRequest \<Rightarrow> string
     \<Rightarrow> 's DynamoDBAPI \<Rightarrow> 's \<Rightarrow> (panic + (error + User)) \<times> 's" where
  "UpdateUser unmarshal req table dynaClient s =
     (case unmarshal (RequestBody req) of
        Inl err \<Rightarrow> (Inr (Inl (errors_New user_ErrorInvalidEmail)), s)
      | Inr u \<Rightarrow>
          (case FetchUser (Email u) table dynaClient s of
             (Inl _, s1) \<Rightarrow> (Inl NilPointerDereference, s1)
           | (Inr currentUser, s1) \<Rightarrow>
               if length (Email currentUser) = 0 then
                 (Inr (Inl (errors_New user_ErrorUserDoesNotExists)), s1)
               else
                 (case MarshalMap u of
                    Inl err \<Rightarrow> (Inr (Inl (errors_New user_ErrorCouldNotMarshalItem)), s1)
                  | Inr av \<Rightarrow>
                      (case PutItem dynaClient (PutItemInput av table) s1 of
                         (Inl err, s2) \<Rightarrow>
                           (Inr (Inl (errors_New user_ErrorCouldNotDynamoPutItem)), s2)
                       | (Inr _, s2) \<Rightarrow> (Inr (Inr u), s2)))))"

text \<open>\<open>DeleteUser\<close> returns an \<open>error\<close>: \<open>None\<close> is nil.\<close>

definition DeleteUser ::
  "APIGatewayProxyRequest \<Rightarrow> string \<Rightarrow> 's DynamoDBAPI \<Rightarrow> 's \<Rightarrow> error option \<times> 's" where
  "DeleteUser req table dynaClient s =
     (let email = queryParam req ''email'' in
      case DeleteItem dynaClient (DeleteItemInput [''email'' \<mapsto> S email] table) s of
        (Inl err, s') \<Rightarrow> (Some (errors_New user_ErrorCouldNotDeleteItem), s')
      | (Inr _, s') \<Rightarrow> (None, s'))"

section \<open>Two clients and a decoder, for concrete runs\<close>

text \<open>
  An in-memory table with the four operations, keyed by the string under \<open>email\<close>:
  a lookup of a key that is not there succeeds with no item, a put replaces the item of
  its key, a delete succeeds whether the key is there or not, and a scan returns the
  whole table in one output.
\<close>

type_synonym table = "(string \<times> item) list"

definition keyOf :: "item \<Rightarrow> string option" where
  "keyOf m = (case m ''email'' of Some (S e) \<Rightarrow> Some e | _ \<Rightarrow> None)"

definition ValidationException :: error where
  "ValidationException = LibraryError ''ValidationException''"

definition memClient :: "table DynamoDBAPI" where
  "memClient =
     \<lparr>GetItem = (\<lambda>inp t. case inp of GetItemInput k _ \<Rightarrow>
         (case keyOf k of
            None \<Rightarrow> (Inl ValidationException, t)
          | Some e \<Rightarrow>
              (Inr (GetItemOutput (case map_of t e of None \<Rightarrow> Map.empty | Some m \<Rightarrow> m)), t))),
      Scan = (\<lambda>inp t. (Inr (ScanOutput (map snd t) Map.empty), t)),
      PutItem = (\<lambda>inp t. case inp of PutItemInput m _ \<Rightarrow>
         (case keyOf m of
            None \<Rightarrow> (Inl ValidationException, t)
          | Some e \<Rightarrow> (Inr (PutItemOutput Map.empty), (e, m) # filter (\<lambda>p. fst p \<noteq> e) t))),
      DeleteItem = (\<lambda>inp t. case inp of DeleteItemInput k _ \<Rightarrow>
         (case keyOf k of
            None \<Rightarrow> (Inl ValidationException, t)
          | Some e \<Rightarrow> (Inr (DeleteItemOutput Map.empty), filter (\<lambda>p. fst p \<noteq> e) t)))\<rparr>"

text \<open>
  The same table behind a store that pages its scans, as the store does once a table
  outgrows the size of one answer: a scan call returns the first page, here one item,
  and the key to go on from when more is left.
\<close>

fun scanPage :: "table \<Rightarrow> ScanOutput" where
  "scanPage [] = ScanOutput [] Map.empty"
| "scanPage [(e, m)] = ScanOutput [m] Map.empty"
| "scanPage ((e, m) # rest) = ScanOutput [m] [''email'' \<mapsto> S e]"

definition pagingClient :: "table DynamoDBAPI" where
  "pagingClient = memClient\<lparr>Scan := (\<lambda>inp t. (Inr (scanPage t), t))\<rparr>"

text \<open>A store that cannot be reached: every call returns an error.\<close>

definition RequestError :: error where
  "RequestError = LibraryError ''RequestError''"

definition downClient :: "'s DynamoDBAPI" where
  "downClient =
     \<lparr>GetItem = (\<lambda>inp s. (Inl RequestError, s)),
      Scan = (\<lambda>inp s. (Inl RequestError, s)),
      PutItem = (\<lambda>inp s. (Inl RequestError, s)),
      DeleteItem = (\<lambda>inp s. (Inl RequestError, s))\<rparr>"

text \<open>
  A decoder that knows one body text: it stands for \<open>json.Unmarshal\<close> on a request
  with that body, and reports a syntax error for every other text.
\<close>

definition decodes :: "string \<Rightarrow> User \<Rightarrow> string \<Rightarrow> error + User" where
  "decodes text u b = (if b = text then Inr u else Inl (LibraryError ''SyntaxError''))"

definition ada :: User where
  "ada = \<lparr>Email = ''a@b.com'', FirstName = ''Ada'', LastName = ''Lovelace''\<rparr>"

definition adaJSON :: string where
  "adaJSON = ''{\"email\":\"a@b.com\",\"firstName\":\"Ada\",\"lastName\":\"Lovelace\"}''"

definition request :: "string \<Rightarrow> (string \<rightharpoonup> string) \<Rightarrow> string \<Rightarrow> APIGatewayProxyRequest" where
  "request method query text =
     \<lparr>HTTPMethod = method, Path = ''/'', QueryStringParameters = query, RequestBody = text\<rparr>"

section \<open>The words of the specification\<close>

text \<open>
  The pattern of the validator as the specification describes it: a local part of ASCII
  letters, digits and the listed special characters, an \<open>@\<close>, and a domain of DNS
  labels separated by dots. The bounds are those of the pattern: 1 to 64 characters in
  the local part, 1 to 63 in a label, which starts and ends with a letter or digit.
\<close>

definition ascii_letter_or_digit :: "char \<Rightarrow> bool" where
  "ascii_letter_or_digit c \<longleftrightarrow>
     c \<in> set ''abcdefghijklmnopqrstuvwxyzABCDEFGHIJKLMNOPQRSTUVWXYZ0123456789''"

definition local_special :: "char \<Rightarrow> bool" where
  "local_special c \<longleftrightarrow>
     c \<in> set (''.!#$%&'' @ [CHR 0x27] @ ''*+/=?^_'' @ [CHR 0x60] @ ''{|}~-'')"

definition local_part :: "string \<Rightarrow> bool" where
  "local_part l \<longleftrightarrow>
     1 \<le> length l \<and> length l \<le> 64 \<and> (\<forall>c \<in> set l. ascii_letter_or_digit c \<or> local_special c)"

definition dns_label :: "string \<Rightarrow> bool" where
  "dns_label l \<longleftrightarrow>
     l \<noteq> [] \<and> length l \<le> 63 \<and> ascii_letter_or_digit (hd l) \<and> ascii_letter_or_digit (last l) \<and>
     (\<forall>c \<in> set l. ascii_letter_or_digit c \<or> c = CHR ''-'')"

fun join_dots :: "string list \<Rightarrow> string" where
  "join_dots [] = []"
| "join_dots [l] = l"
| "join_dots (l # l' # ls) = l @ ''.'' @ join_dots (l' # ls)"

definition email_pattern :: "string \<Rightarrow> bool" where
  "email_pattern e \<longleftrightarrow>
     (\<exists>local labels. e = local @ ''@'' @ join_dots labels \<and> local_part local \<and>
        labels \<noteq> [] \<and> (\<forall>l \<in> set labels. dns_label l))"

text \<open>
  The uniform envelope: a status, the header \<open>Content-Type: application/json\<close> and a
  body; and the envelope of an error message.
\<close>

definition envelope :: "int \<Rightarrow> body_text \<Rightarrow> APIGatewayProxyResponse" where
  "envelope status t =
     \<lparr>StatusCode = status, Headers = [''Content-Type'' \<mapsto> ''application/json''], Body = t\<rparr>"

definition errorResponse :: "int \<Rightarrow> string \<Rightarrow> APIGatewayProxyResponse" where
  "errorResponse status msg = envelope status (Marshalled (BodyErrorBody \<lparr>ErrorMsg = Some msg\<rparr>))"

section \<open>The matcher decides the language\<close>

lemma conc_nil_iff: "[] \<in> conc A B \<longleftrightarrow> [] \<in> A \<and> [] \<in> B"
  by (auto simp: conc_def)

lemma conc_Cons_iff:
  "c # w \<in> conc A B \<longleftrightarrow>
     ([] \<in> A \<and> c # w \<in> B) \<or> (\<exists>u v. w = u @ v \<and> c # u \<in> A \<and> v \<in> B)"
proof
  assume "c # w \<in> conc A B"
  then obtain u v where uv: "c # w = u @ v" "u \<in> A" "v \<in> B"
    by (auto simp: conc_def)
  show "([] \<in> A \<and> c # w \<in> B) \<or> (\<exists>u v. w = u @ v \<and> c # u \<in> A \<and> v \<in> B)"
  proof (cases u)
    case Nil
    with uv show ?thesis by simp
  next
    case (Cons a u')
    with uv have "w = u' @ v" "c # u' \<in> A" by simp_all
    with uv show ?thesis by blast
  qed
next
  assume "([] \<in> A \<and> c # w \<in> B) \<or> (\<exists>u v. w = u @ v \<and> c # u \<in> A \<and> v \<in> B)"
  then show "c # w \<in> conc A B"
  proof
    assume "[] \<in> A \<and> c # w \<in> B"
    then have "[] @ (c # w) \<in> conc A B" unfolding conc_def by blast
    then show ?thesis by simp
  next
    assume "\<exists>u v. w = u @ v \<and> c # u \<in> A \<and> v \<in> B"
    then obtain u v where "w = u @ v" "c # u \<in> A" "v \<in> B" by blast
    then have "(c # u) @ v \<in> conc A B" unfolding conc_def by blast
    with \<open>w = u @ v\<close> show ?thesis by simp
  qed
qed

lemma star_Cons_split:
  assumes "x \<in> star A" and "x = c # w"
  shows "\<exists>u v. w = u @ v \<and> c # u \<in> A \<and> v \<in> star A"
  using assms
proof (induction arbitrary: w rule: star.induct)
  case star_nil
  then show ?case by simp
next
  case (star_app u v)
  show ?case
  proof (cases u)
    case Nil
    with star_app show ?thesis by simp
  next
    case (Cons a u')
    with star_app.prems have "w = u' @ v" "a = c" by simp_all
    with Cons star_app.hyps show ?thesis by blast
  qed
qed

lemma star_Cons_iff:
  "c # w \<in> star A \<longleftrightarrow> (\<exists>u v. w = u @ v \<and> c # u \<in> A \<and> v \<in> star A)"
proof
  assume "c # w \<in> star A"
  then show "\<exists>u v. w = u @ v \<and> c # u \<in> A \<and> v \<in> star A"
    by (rule star_Cons_split) simp
next
  assume "\<exists>u v. w = u @ v \<and> c # u \<in> A \<and> v \<in> star A"
  then obtain u v where "w = u @ v" "c # u \<in> A" "v \<in> star A" by blast
  then have "(c # u) @ v \<in> star A" by (intro star.star_app)
  with \<open>w = u @ v\<close> show "c # w \<in> star A" by simp
qed

lemma nullable_iff: "nullable r \<longleftrightarrow> [] \<in> lang r"
  by (induction r) (auto simp: conc_nil_iff intro: star.star_nil)

lemma deriv_iff: "w \<in> lang (deriv c r) \<longleftrightarrow> c # w \<in> lang r"
proof (induction r arbitrary: w)
  case (Times r s)
  then show ?case
    by (auto simp: conc_Cons_iff nullable_iff) (auto simp: conc_def)
next
  case (Star r)
  then show ?case
    by (auto simp: star_Cons_iff) (auto simp: conc_def)
qed auto

lemma MatchString_iff: "MatchString r w \<longleftrightarrow> w \<in> lang r"
  by (induction w arbitrary: r) (simp_all add: nullable_iff deriv_iff)


section \<open>The language of \<open>rxEmail\<close>\<close>

text \<open>
  The classes of the pattern are the character sets of the specification, and the
  language of the pattern is the set of strings the specification describes.
\<close>

lemma char_eq_nat: "c = d \<longleftrightarrow> (of_char c :: nat) = of_char d"
  by (metis of_char_eq_iff)

lemma alnum_iff: "in_class alnum c \<longleftrightarrow> ascii_letter_or_digit c"
  unfolding in_class_def alnum_def in_range_def ascii_letter_or_digit_def
  apply (simp add: char_eq_nat[of c])
  apply arith
  done

lemma localChars_iff: "in_class localChars c \<longleftrightarrow> ascii_letter_or_digit c \<or> local_special c"
  unfolding alnum_iff[symmetric]
  unfolding in_class_def localChars_def alnum_def in_range_def local_special_def
  apply (simp add: char_eq_nat[of c])
  apply arith
  done

lemma alnumHyphen_iff: "in_class alnumHyphen c \<longleftrightarrow> ascii_letter_or_digit c \<or> c = CHR ''-''"
  unfolding alnum_iff[symmetric]
  unfolding in_class_def alnumHyphen_def alnum_def in_range_def
  apply (simp add: char_eq_nat[of c])
  apply arith
  done

lemma conc_Class: "conc (lang (Class cs)) B = {c # v | c v. in_class cs c \<and> v \<in> B}"
proof (intro set_eqI iffI)
  fix w
  assume "w \<in> conc (lang (Class cs)) B"
  then obtain u v where "w = u @ v" "u \<in> lang (Class cs)" "v \<in> B"
    unfolding conc_def by blast
  then show "w \<in> {c # v | c v. in_class cs c \<and> v \<in> B}" by auto
next
  fix w
  assume "w \<in> {c # v | c v. in_class cs c \<and> v \<in> B}"
  then obtain c v where "w = [c] @ v" "[c] \<in> lang (Class cs)" "v \<in> B" by auto
  then show "w \<in> conc (lang (Class cs)) B" unfolding conc_def by blast
qed

lemma lang_Lit: "lang (Lit c) = {[c]}"
proof -
  have "in_class [(c, c)] x \<longleftrightarrow> x = c" for x
  proof -
    have "in_class [(c, c)] x \<longleftrightarrow> (of_char x :: nat) = of_char c"
      by (auto simp: in_class_def in_range_def)
    then show ?thesis by (simp only: of_char_eq_iff)
  qed
  then show ?thesis by (simp add: Lit_def)
qed

lemma conc_Lit: "conc (lang (Lit c)) B = {c # v | v. v \<in> B}"
  unfolding lang_Lit conc_def by auto

lemma lang_rep_Class:
  "lang (rep (Class cs) m n) = {w. m \<le> length w \<and> length w \<le> n \<and> (\<forall>c \<in> set w. in_class cs c)}"
proof (induction "Class cs" m n rule: rep.induct)
  case 1
  show ?case by auto
next
  case (2 n)
  have "lang (rep (Class cs) 0 (Suc n)) = {[]} \<union> conc (lang (Class cs)) (lang (rep (Class cs) 0 n))"
    by (simp add: Opt_def)
  also have "\<dots> = {w. 0 \<le> length w \<and> length w \<le> Suc n \<and> (\<forall>c \<in> set w. in_class cs c)}"
    unfolding conc_Class 2
  proof (intro set_eqI iffI)
    fix w
    assume "w \<in> {[]} \<union> {c # v |c v. in_class cs c \<and> v \<in> {w. 0 \<le> length w \<and> length w \<le> n \<and> (\<forall>c\<in>set w. in_class cs c)}}"
    then show "w \<in> {w. 0 \<le> length w \<and> length w \<le> Suc n \<and> (\<forall>c \<in> set w. in_class cs c)}"
      by auto
  next
    fix w
    assume "w \<in> {w. 0 \<le> length w \<and> length w \<le> Suc n \<and> (\<forall>c \<in> set w. in_class cs c)}"
    then show "w \<in> {[]} \<union> {c # v |c v. in_class cs c \<and> v \<in> {w. 0 \<le> length w \<and> length w \<le> n \<and> (\<forall>c\<in>set w. in_class cs c)}}"
      by (cases w) auto
  qed
  finally show ?case .
next
  case (3 m)
  show ?case by auto
next
  case (4 m n)
  have "lang (rep (Class cs) (Suc m) (Suc n)) = conc (lang (Class cs)) (lang (rep (Class cs) m n))"
    by simp
  also have "\<dots> = {w. Suc m \<le> length w \<and> length w \<le> Suc n \<and> (\<forall>c \<in> set w. in_class cs c)}"
    unfolding conc_Class 4
  proof (intro set_eqI iffI)
    fix w
    assume "w \<in> {c # v |c v. in_class cs c \<and> v \<in> {w. m \<le> length w \<and> length w \<le> n \<and> (\<forall>c\<in>set w. in_class cs c)}}"
    then show "w \<in> {w. Suc m \<le> length w \<and> length w \<le> Suc n \<and> (\<forall>c \<in> set w. in_class cs c)}"
      by auto
  next
    fix w
    assume "w \<in> {w. Suc m \<le> length w \<and> length w \<le> Suc n \<and> (\<forall>c \<in> set w. in_class cs c)}"
    then show "w \<in> {c # v |c v. in_class cs c \<and> v \<in> {w. m \<le> length w \<and> length w \<le> n \<and> (\<forall>c\<in>set w. in_class cs c)}}"
      by (cases w) auto
  qed
  finally show ?case .
qed

lemma lang_local: "lang (rep (Class localChars) 1 64) = {l. local_part l}"
  by (simp only: lang_rep_Class local_part_def localChars_iff)

lemma lang_rxLabel_unfold:
  "lang rxLabel = conc (lang (Class alnum))
     ({[]} \<union> conc (lang (rep (Class alnumHyphen) 0 61)) (lang (Class alnum)))"
  by (simp only: rxLabel_def Opt_def lang.simps(2,4,5))

lemma lang_rxEmail_unfold:
  "lang rxEmail = conc (lang (rep (Class localChars) 1 64))
     (conc (lang (Lit CHR ''@''))
       (conc (lang rxLabel) (star (conc (lang (Lit CHR ''.'')) (lang rxLabel)))))"
  by (simp only: rxEmail_def lang.simps(5,6))

lemma lang_rxLabel: "lang rxLabel = {l. dns_label l}"
proof (intro set_eqI iffI)
  fix l
  assume "l \<in> lang rxLabel"
  then have "l \<in> {c # v | c v. in_class alnum c \<and>
      v \<in> {[]} \<union> conc (lang (rep (Class alnumHyphen) 0 61)) (lang (Class alnum))}"
    by (simp only: lang_rxLabel_unfold conc_Class)
  then obtain a t where l: "l = a # t" and a: "in_class alnum a"
    and t': "t \<in> {[]} \<union> conc (lang (rep (Class alnumHyphen) 0 61)) (lang (Class alnum))"
    by blast
  have t: "t = [] \<or> (\<exists>mid z. t = mid @ [z] \<and> length mid \<le> 61
             \<and> (\<forall>c \<in> set mid. in_class alnumHyphen c) \<and> in_class alnum z)"
  proof (cases "t = []")
    case False
    with t' obtain mid v where "t = mid @ v" "mid \<in> lang (rep (Class alnumHyphen) 0 61)"
      "v \<in> lang (Class alnum)"
      unfolding conc_def by blast
    then show ?thesis by (auto simp: lang_rep_Class)
  qed simp
  from t show "l \<in> {l. dns_label l}"
  proof
    assume "t = []"
    with l a show ?thesis by (simp add: dns_label_def alnum_iff)
  next
    assume "\<exists>mid z. t = mid @ [z] \<and> length mid \<le> 61
             \<and> (\<forall>c \<in> set mid. in_class alnumHyphen c) \<and> in_class alnum z"
    then obtain mid z where "t = mid @ [z]" "length mid \<le> 61"
      "\<forall>c \<in> set mid. in_class alnumHyphen c" "in_class alnum z" by blast
    with l a show ?thesis
      by (auto simp: dns_label_def alnum_iff alnumHyphen_iff)
  qed
next
  fix l
  assume "l \<in> {l. dns_label l}"
  then have d: "dns_label l" by simp
  then obtain a t where l: "l = a # t" by (cases l) (auto simp: dns_label_def)
  show "l \<in> lang rxLabel"
  proof (cases t rule: rev_cases)
    case Nil
    with l d have "in_class alnum a" by (simp add: dns_label_def alnum_iff)
    with l Nil show ?thesis
      unfolding lang_rxLabel_unfold conc_Class by blast
  next
    case (snoc mid z)
    with l d have "in_class alnum a" "in_class alnum z" "length mid \<le> 61"
      "\<forall>c \<in> set mid. in_class alnumHyphen c"
      by (auto simp: dns_label_def alnum_iff alnumHyphen_iff)
    then have "mid \<in> lang (rep (Class alnumHyphen) 0 61)" "[z] \<in> lang (Class alnum)"
      by (simp_all add: lang_rep_Class)
    then have "mid @ [z] \<in> conc (lang (rep (Class alnumHyphen) 0 61)) (lang (Class alnum))"
      unfolding conc_def by blast
    with \<open>in_class alnum a\<close> l snoc show ?thesis
      unfolding lang_rxLabel_unfold conc_Class by blast
  qed
qed

lemma star_dotted:
  "star (conc (lang (Lit CHR ''.'')) (lang rxLabel)) =
     {concat (map ((#) CHR ''.'') ls) | ls. \<forall>l \<in> set ls. dns_label l}"
proof (intro set_eqI iffI)
  fix w
  assume "w \<in> star (conc (lang (Lit CHR ''.'')) (lang rxLabel))"
  then show "w \<in> {concat (map ((#) CHR ''.'') ls) | ls. \<forall>l \<in> set ls. dns_label l}"
  proof (induction rule: star.induct)
    case star_nil
    have "[] = concat (map ((#) CHR ''.'') []) \<and> (\<forall>l \<in> set []. dns_label l)" by simp
    then show ?case by blast
  next
    case (star_app u v)
    then obtain ls where ls: "v = concat (map ((#) CHR ''.'') ls)" "\<forall>l \<in> set ls. dns_label l"
      by blast
    from star_app.hyps(1) obtain l where l: "u = CHR ''.'' # l" "dns_label l"
      unfolding conc_Lit lang_rxLabel by blast
    have "u @ v = concat (map ((#) CHR ''.'') (l # ls))" using l ls by simp
    moreover have "\<forall>x \<in> set (l # ls). dns_label x" using l ls by simp
    ultimately show ?case by blast
  qed
next
  fix w
  assume "w \<in> {concat (map ((#) CHR ''.'') ls) | ls. \<forall>l \<in> set ls. dns_label l}"
  then obtain ls where "w = concat (map ((#) CHR ''.'') ls)" "\<forall>l \<in> set ls. dns_label l"
    by blast
  then show "w \<in> star (conc (lang (Lit CHR ''.'')) (lang rxLabel))"
  proof (induction ls arbitrary: w)
    case Nil
    then show ?case by (simp add: star.star_nil)
  next
    case (Cons l ls)
    have "CHR ''.'' # l \<in> conc (lang (Lit CHR ''.'')) (lang rxLabel)"
      unfolding conc_Lit lang_rxLabel using Cons.prems by simp
    moreover have "concat (map ((#) CHR ''.'') ls) \<in> star (conc (lang (Lit CHR ''.'')) (lang rxLabel))"
      using Cons by simp
    ultimately have "(CHR ''.'' # l) @ concat (map ((#) CHR ''.'') ls)
        \<in> star (conc (lang (Lit CHR ''.'')) (lang rxLabel))"
      by (rule star.star_app)
    with Cons.prems show ?case by simp
  qed
qed

lemma join_dots_Cons: "join_dots (l # ls) = l @ concat (map ((#) CHR ''.'') ls)"
  by (induction ls arbitrary: l) simp_all

lemma lang_rxEmail: "lang rxEmail = {e. email_pattern e}"
proof (intro set_eqI iffI)
  fix e
  assume "e \<in> lang rxEmail"
  then obtain loc r1 where 1: "e = loc @ r1" "loc \<in> lang (rep (Class localChars) 1 64)"
    "r1 \<in> conc (lang (Lit CHR ''@'')) (conc (lang rxLabel) (star (conc (lang (Lit CHR ''.'')) (lang rxLabel))))"
    unfolding lang_rxEmail_unfold conc_def[of "lang (rep (Class localChars) 1 64)"] by blast
  from 1(2) have loc: "local_part loc" by (simp only: lang_local mem_Collect_eq)
  from 1(3) obtain r2 where 2: "r1 = CHR ''@'' # r2"
    "r2 \<in> conc (lang rxLabel) (star (conc (lang (Lit CHR ''.'')) (lang rxLabel)))"
    unfolding conc_Lit by blast
  from 2(2) obtain l v where 3: "r2 = l @ v" "l \<in> lang rxLabel"
    "v \<in> star (conc (lang (Lit CHR ''.'')) (lang rxLabel))"
    unfolding conc_def[of "lang rxLabel"] by blast
  from 3(3) obtain ls where 4: "v = concat (map ((#) CHR ''.'') ls)" "\<forall>x \<in> set ls. dns_label x"
    unfolding star_dotted by blast
  from 3(2) have 5: "dns_label l" by (simp add: lang_rxLabel)
  from 1 2 3 4 5 loc have "e = loc @ CHR ''@'' # l @ concat (map ((#) CHR ''.'') ls)"
    "local_part loc" "dns_label l" "\<forall>x \<in> set ls. dns_label x"
    by simp_all
  then have "e = loc @ ''@'' @ join_dots (l # ls)" "local_part loc" "l # ls \<noteq> []"
    "\<forall>x \<in> set (l # ls). dns_label x"
    by (simp_all add: join_dots_Cons)
  then show "e \<in> {e. email_pattern e}"
    unfolding email_pattern_def by blast
next
  fix e
  assume "e \<in> {e. email_pattern e}"
  then obtain loc labels where e: "e = loc @ ''@'' @ join_dots labels" "local_part loc"
    "labels \<noteq> []" "\<forall>l \<in> set labels. dns_label l"
    unfolding email_pattern_def by blast
  then obtain l ls where labels: "labels = l # ls" by (cases labels) auto
  have 1: "loc \<in> lang (rep (Class localChars) 1 64)" using e by (simp only: lang_local mem_Collect_eq)
  have 2: "''@'' \<in> lang (Lit CHR ''@'')" by (simp add: lang_Lit)
  have 3: "l \<in> lang rxLabel" using e labels by (simp add: lang_rxLabel)
  have 4: "concat (map ((#) CHR ''.'') ls) \<in> star (conc (lang (Lit CHR ''.'')) (lang rxLabel))"
    unfolding star_dotted using e labels by auto
  have "l @ concat (map ((#) CHR ''.'') ls)
      \<in> conc (lang rxLabel) (star (conc (lang (Lit CHR ''.'')) (lang rxLabel)))"
    unfolding conc_def[of "lang rxLabel"] using 3 4 by blast
  then have "''@'' @ (l @ concat (map ((#) CHR ''.'') ls))
      \<in> conc (lang (Lit CHR ''@'')) (conc (lang rxLabel) (star (conc (lang (Lit CHR ''.'')) (lang rxLabel))))"
    unfolding conc_def[of "lang (Lit CHR ''@'')"] using 2 by blast
  then have "loc @ (''@'' @ (l @ concat (map ((#) CHR ''.'') ls))) \<in> lang rxEmail"
    unfolding lang_rxEmail_unfold conc_def[of "lang (rep (Class localChars) 1 64)"] using 1 by blast
  then show "e \<in> lang rxEmail"
    using e labels by (simp add: join_dots_Cons)
qed

lemma isEmailValid_iff:
  "isEmailValid e \<longleftrightarrow> 3 \<le> length e \<and> length e \<le> 254 \<and> email_pattern e"
  using lang_rxEmail by (auto simp: isEmailValid_def MatchString_iff)

lemma isEmailValid_length: "isEmailValid e \<Longrightarrow> 3 \<le> length e \<and> length e \<le> 254"
  by (simp add: isEmailValid_def split: if_splits)

lemma not_special_at: "\<not> ascii_letter_or_digit CHR ''@''" "\<not> local_special CHR ''@''"
  by (simp_all add: ascii_letter_or_digit_def local_special_def)

lemma dns_label_no_at: "dns_label l \<Longrightarrow> CHR ''@'' \<notin> set l"
  using not_special_at by (auto simp: dns_label_def)

lemma join_dots_no_at: "\<forall>l \<in> set ls. dns_label l \<Longrightarrow> CHR ''@'' \<notin> set (join_dots ls)"
  by (induction ls rule: join_dots.induct) (auto dest: dns_label_no_at)

lemma email_pattern_one_at:
  "email_pattern e \<Longrightarrow> length (filter (\<lambda>c. c = CHR ''@'') e) = 1"
proof -
  assume "email_pattern e"
  then obtain loc labels where e: "e = loc @ ''@'' @ join_dots labels" "local_part loc"
    "\<forall>l \<in> set labels. dns_label l"
    unfolding email_pattern_def by blast
  have "filter (\<lambda>c. c = CHR ''@'') loc = []"
    using e(2) not_special_at by (auto simp: local_part_def filter_empty_conv)
  moreover have "filter (\<lambda>c. c = CHR ''@'') (join_dots labels) = []"
    using join_dots_no_at[OF e(3)] by (auto simp: filter_empty_conv)
  ultimately show ?thesis using e(1) by simp
qed

lemma valid_ada: "isEmailValid ''a@b.com''"
  by code_simp

lemma invalid_empty: "\<not> isEmailValid []"
  by (simp add: isEmailValid_def)


section \<open>The attribute format\<close>

lemma MarshalMap_total:
  "MarshalMap u = Inr [''email'' \<mapsto> encodeString (Email u),
     ''firstName'' \<mapsto> encodeString (FirstName u), ''lastName'' \<mapsto> encodeString (LastName u)]"
  by (simp add: MarshalMap_def)

lemma decodeString_encodeString: "decodeString (encodeString s) = Inr s"
  by (simp add: encodeString_def)

lemma variants_self: "[c] \<in> set (variants c)"
  by (simp add: variants_def split: option.splits)

lemma spellings_append:
  "v \<in> set (variants c) \<Longrightarrow> w \<in> set (spellings cs) \<Longrightarrow> v @ w \<in> set (spellings (c # cs))"
  by auto

lemma spellings_self: "name \<in> set (spellings name)"
proof (induction name)
  case (Cons c cs)
  from spellings_append[OF variants_self Cons] show ?case by simp
qed simp

lemma spellings_Cons:
  "k \<in> set (spellings (c # cs)) \<Longrightarrow> \<exists>v \<in> set (variants c). \<exists>w. k = v @ w"
  by auto

declare spellings.simps [simp del]

lemma variants_e: "variants CHR ''e'' = [''e'', ''E'']"
  and variants_f: "variants CHR ''f'' = [''f'', ''F'']"
  and variants_l: "variants CHR ''l'' = [''l'', ''L'']"
  by (simp_all add: variants_def swapCase_def)

lemma spellings_email: "k \<in> set (spellings ''email'') \<Longrightarrow> hd k = CHR ''e'' \<or> hd k = CHR ''E''"
  using spellings_Cons[of k "CHR ''e''" "''mail''"] by (auto simp: variants_e)

lemma spellings_firstName:
  "k \<in> set (spellings ''firstName'') \<Longrightarrow> hd k = CHR ''f'' \<or> hd k = CHR ''F''"
  using spellings_Cons[of k "CHR ''f''" "''irstName''"] by (auto simp: variants_f)

lemma spellings_lastName:
  "k \<in> set (spellings ''lastName'') \<Longrightarrow> hd k = CHR ''l'' \<or> hd k = CHR ''L''"
  using spellings_Cons[of k "CHR ''l''" "''astName''"] by (auto simp: variants_l)

lemma EMAIL_spelling: "''EMAIL'' \<in> set (spellings ''email'')"
  by (simp add: spellings.simps variants_def swapCase_def)

lemma FirstName_spelling: "''FirstName'' \<in> set (spellings ''firstName'')"
  using spellings_append[OF _ spellings_self, of "''F''" "CHR ''f''" "''irstName''"]
  by (simp add: variants_f)

lemma LastName_spelling: "''LastName'' \<in> set (spellings ''lastName'')"
  using spellings_append[OF _ spellings_self, of "''L''" "CHR ''l''" "''astName''"]
  by (simp add: variants_l)

text \<open>One attribute for a field decides the field; none leaves it empty.\<close>

lemma decodeField_single:
  assumes "k0 \<in> set (spellings name)" and "m k0 = Some a"
    and "\<forall>k \<in> set (spellings name). k \<noteq> k0 \<longrightarrow> m k = None"
  shows "decodeField m name = decodeString a"
proof -
  have all: "\<forall>x \<in> set (List.map_filter m (spellings name)). x = a"
    using assms by (auto simp: List.map_filter_def)
  have ne: "List.map_filter m (spellings name) \<noteq> []"
    using assms(1,2) by (auto simp: List.map_filter_def filter_empty_conv)
  obtain x xs where xs: "List.map_filter m (spellings name) = x # xs"
    using ne by (cases "List.map_filter m (spellings name)") auto
  with all have x: "x = a" and rest: "\<forall>y \<in> set xs. y = a" by auto
  show ?thesis
  proof (cases "decodeString a")
    case (Inl e)
    then show ?thesis by (simp add: decodeField_def xs x)
  next
    case (Inr s)
    with rest have "filter isl (map decodeString xs) = []"
      by (auto simp: filter_empty_conv)
    with Inr show ?thesis by (simp add: decodeField_def xs x)
  qed
qed

lemma decodeField_none:
  assumes "\<forall>k \<in> set (spellings name). m k = None"
  shows "decodeField m name = Inr []"
proof -
  have "List.map_filter m (spellings name) = []"
    using assms by (auto simp: List.map_filter_def filter_empty_conv)
  then show ?thesis by (simp add: decodeField_def)
qed

text \<open>
  An item with one attribute for each field, under the field's name or, for the two
  names, with a capital first letter.
\<close>

lemma decodeField_email:
  assumes "\<forall>k. m k \<noteq> None \<longrightarrow> k = ''email'' \<or> hd k = CHR ''f'' \<or> hd k = CHR ''F''
      \<or> hd k = CHR ''l'' \<or> hd k = CHR ''L''"
    and "m ''email'' = Some a"
  shows "decodeField m ''email'' = decodeString a"
proof (rule decodeField_single[where m = m and name = "''email''" and ?k0.0 = "''email''",
      OF spellings_self assms(2)], intro ballI impI)
  fix k assume "k \<in> set (spellings ''email'')" and "k \<noteq> ''email''"
  with spellings_email[of k] assms(1) show "m k = None" by (cases "m k") auto
qed

lemma decodeField_firstName:
  assumes "\<forall>k. m k \<noteq> None \<longrightarrow> k = k0 \<or> hd k = CHR ''e'' \<or> hd k = CHR ''E''
      \<or> hd k = CHR ''l'' \<or> hd k = CHR ''L''"
    and "m k0 = Some a" and "k0 \<in> set (spellings ''firstName'')"
  shows "decodeField m ''firstName'' = decodeString a"
proof (rule decodeField_single[where m = m and name = "''firstName''" and ?k0.0 = k0,
      OF assms(3) assms(2)], intro ballI impI)
  fix k assume "k \<in> set (spellings ''firstName'')" and "k \<noteq> k0"
  with spellings_firstName[of k] assms(1) show "m k = None" by (cases "m k") auto
qed

lemma decodeField_lastName:
  assumes "\<forall>k. m k \<noteq> None \<longrightarrow> k = k0 \<or> hd k = CHR ''e'' \<or> hd k = CHR ''E''
      \<or> hd k = CHR ''f'' \<or> hd k = CHR ''F''"
    and "m k0 = Some a" and "k0 \<in> set (spellings ''lastName'')"
  shows "decodeField m ''lastName'' = decodeString a"
proof (rule decodeField_single[where m = m and name = "''lastName''" and ?k0.0 = k0,
      OF assms(3) assms(2)], intro ballI impI)
  fix k assume "k \<in> set (spellings ''lastName'')" and "k \<noteq> k0"
  with spellings_lastName[of k] assms(1) show "m k = None" by (cases "m k") auto
qed

lemma UnmarshalMap_three:
  "UnmarshalMap [''email'' \<mapsto> a, ''firstName'' \<mapsto> b, ''lastName'' \<mapsto> c] =
     (case decodeString a of Inl err \<Rightarrow> Inl err | Inr e \<Rightarrow>
      case decodeString b of Inl err \<Rightarrow> Inl err | Inr f \<Rightarrow>
      case decodeString c of Inl err \<Rightarrow> Inl err | Inr l \<Rightarrow>
        Inr \<lparr>Email = e, FirstName = f, LastName = l\<rparr>)"
proof -
  let ?m = "[''email'' \<mapsto> a, ''firstName'' \<mapsto> b, ''lastName'' \<mapsto> c]"
  have 1: "decodeField ?m ''email'' = decodeString a"
    by (rule decodeField_email) (auto split: if_splits)
  have 2: "decodeField ?m ''firstName'' = decodeString b"
    by (rule decodeField_firstName[where ?k0.0 = "''firstName''"])
       (auto simp: spellings_self split: if_splits)
  have 3: "decodeField ?m ''lastName'' = decodeString c"
    by (rule decodeField_lastName[where ?k0.0 = "''lastName''"])
       (auto simp: spellings_self split: if_splits)
  show ?thesis by (simp only: UnmarshalMap_def 1 2 3)
qed

lemma UnmarshalMap_capitals:
  "UnmarshalMap [''email'' \<mapsto> a, ''FirstName'' \<mapsto> b, ''LastName'' \<mapsto> c] =
     (case decodeString a of Inl err \<Rightarrow> Inl err | Inr e \<Rightarrow>
      case decodeString b of Inl err \<Rightarrow> Inl err | Inr f \<Rightarrow>
      case decodeString c of Inl err \<Rightarrow> Inl err | Inr l \<Rightarrow>
        Inr \<lparr>Email = e, FirstName = f, LastName = l\<rparr>)"
proof -
  let ?m = "[''email'' \<mapsto> a, ''FirstName'' \<mapsto> b, ''LastName'' \<mapsto> c]"
  have 1: "decodeField ?m ''email'' = decodeString a"
    by (rule decodeField_email) (auto split: if_splits)
  have 2: "decodeField ?m ''firstName'' = decodeString b"
    by (rule decodeField_firstName[where ?k0.0 = "''FirstName''"])
       (auto simp: FirstName_spelling split: if_splits)
  have 3: "decodeField ?m ''lastName'' = decodeString c"
    by (rule decodeField_lastName[where ?k0.0 = "''LastName''"])
       (auto simp: LastName_spelling split: if_splits)
  show ?thesis by (simp only: UnmarshalMap_def 1 2 3)
qed

lemma UnmarshalMap_EMAIL:
  "UnmarshalMap [''EMAIL'' \<mapsto> S x] = Inr \<lparr>Email = x, FirstName = [], LastName = []\<rparr>"
proof -
  let ?m = "[''EMAIL'' \<mapsto> S x]"
  have 1: "decodeField ?m ''email'' = Inr x"
    using decodeField_single[OF EMAIL_spelling, of ?m "S x"] by simp
  have 2: "decodeField ?m ''firstName'' = Inr []"
    by (rule decodeField_none) (auto dest: spellings_firstName)
  have 3: "decodeField ?m ''lastName'' = Inr []"
    by (rule decodeField_none) (auto dest: spellings_lastName)
  show ?thesis by (simp add: UnmarshalMap_def 1 2 3)
qed

lemma UnmarshalMap_bool:
  "UnmarshalMap [''email'' \<mapsto> BOOL b] = Inl (UnmarshalTypeError ''bool'')"
proof -
  have "decodeField [''email'' \<mapsto> BOOL b] ''email'' = decodeString (BOOL b)"
    by (rule decodeField_single[OF spellings_self]) simp_all
  then show ?thesis by (simp add: UnmarshalMap_def)
qed

lemma UnmarshalMap_MarshalMap: "MarshalMap u = Inr av \<Longrightarrow> UnmarshalMap av = Inr u"
  by (auto simp: MarshalMap_def UnmarshalMap_three decodeString_encodeString)

lemma UnmarshalMap_empty:
  "UnmarshalMap Map.empty = Inr \<lparr>Email = [], FirstName = [], LastName = []\<rparr>"
  by (simp add: UnmarshalMap_def decodeField_none)

section \<open>The handlers, branch by branch\<close>

lemmas status_defs =
  StatusOK_def StatusCreated_def StatusBadRequest_def StatusMethodNotAllowed_def
  StatusUnprocessableEntity_def

lemmas message_defs =
  ErrorInvalidUserData_def ErrorMethodNotAllowed_def ErrorFailedToUnmarshalRecord_def
  ErrorInvalidEmail_def ErrorFailedToFetchRecord_def ErrorCouldNotMarshalItem_def
  ErrorCouldNotDeleteItem_def ErrorCouldNotDynamoPutItem_def ErrorUserAlreadyExists_def
  ErrorUserDoesNotExists_def

lemma APIResponse_errorBody: "APIResponse status (errorBody msg) = errorResponse status msg"
  by (simp add: APIResponse_def errorBody_def errorResponse_def envelope_def json_Marshal_def)

lemma APIResponse_ErrorBody:
  "APIResponse status (BodyErrorBody \<lparr>ErrorMsg = Some msg\<rparr>) = errorResponse status msg"
  by (simp add: APIResponse_def errorResponse_def envelope_def json_Marshal_def)

lemma APIResponse_BodyNil: "APIResponse status BodyNil = envelope status (Literal ''null'')"
  by (simp add: APIResponse_def envelope_def json_Marshal_def)

lemma APIResponse_BodyUser:
  "APIResponse status (BodyUser u) = envelope status (Marshalled (BodyUser u))"
  by (simp add: APIResponse_def envelope_def json_Marshal_def)

lemma APIResponse_BodyScanOutput:
  "APIResponse status (BodyScanOutput out) = envelope status (Marshalled (BodyScanOutput out))"
  by (simp add: APIResponse_def envelope_def json_Marshal_def)

lemma APIResponse_BodyDeleteItemOutput:
  "APIResponse status (BodyDeleteItemOutput out) =
     envelope status (Marshalled (BodyDeleteItemOutput out))"
  by (simp add: APIResponse_def envelope_def json_Marshal_def)

lemmas APIResponse_simps =
  APIResponse_errorBody APIResponse_ErrorBody APIResponse_BodyNil APIResponse_BodyUser
  APIResponse_BodyScanOutput APIResponse_BodyDeleteItemOutput

lemma envelope_eq_iff: "envelope st t = envelope st' t' \<longleftrightarrow> st = st' \<and> t = t'"
  by (auto simp: envelope_def)

lemma errorResponse_eq_iff:
  "errorResponse st m = errorResponse st' m' \<longleftrightarrow> st = st' \<and> m = m'"
  by (auto simp: errorResponse_def envelope_eq_iff)

lemma errorResponse_neq_envelope_Literal: "errorResponse st m \<noteq> envelope st' (Literal t)"
  by (simp add: errorResponse_def envelope_eq_iff)

lemma handler_GET: "HTTPMethod req = ''GET'' \<Longrightarrow> handler un c req s = getUser c req s"
  by (simp add: handler_def)

lemma handler_POST: "HTTPMethod req = ''POST'' \<Longrightarrow> handler un c req s = createUser un c req s"
  by (simp add: handler_def)

lemma handler_PUT: "HTTPMethod req = ''PUT'' \<Longrightarrow> handler un c req s = updateUser un c req s"
  by (simp add: handler_def)

lemma handler_DELETE: "HTTPMethod req = ''DELETE'' \<Longrightarrow> handler un c req s = deleteUser c req s"
  by (simp add: handler_def)

lemma handler_other:
  "HTTPMethod req \<notin> {''GET'', ''POST'', ''PUT'', ''DELETE''} \<Longrightarrow>
     handler un c req s = (Inr (errorResponse 405 ''Method Not Allowed''), s)"
  by (simp add: handler_def APIResponse_errorBody status_defs message_defs)

lemma fetchUser_fail:
  "GetItem c (GetItemInput [''email'' \<mapsto> S email] tableName) s = (Inl err, s') \<Longrightarrow>
     fetchUser c email s = (Inl \<lparr>ErrorMsg = Some ErrorFailedToFetchRecord\<rparr>, s')"
  by (simp add: fetchUser_def)

lemma fetchUser_item:
  "GetItem c (GetItemInput [''email'' \<mapsto> S email] tableName) s = (Inr (GetItemOutput it), s') \<Longrightarrow>
     fetchUser c email s =
       (case UnmarshalMap it of
          Inl err \<Rightarrow> (Inl \<lparr>ErrorMsg = Some ErrorFailedToUnmarshalRecord\<rparr>, s')
        | Inr u \<Rightarrow> (Inr u, s'))"
  by (simp add: fetchUser_def)

lemma createUser_parse_error:
  "un (RequestBody req) = Inl err \<Longrightarrow>
     createUser un c req s = (Inr (errorResponse 422 ''Invalid User Data''), s)"
  by (simp add: createUser_def APIResponse_simps status_defs message_defs)

lemma createUser_invalid_email:
  "un (RequestBody req) = Inr u \<Longrightarrow> \<not> isEmailValid (Email u) \<Longrightarrow>
     createUser un c req s = (Inr (errorResponse 400 ''Invalid Email''), s)"
  by (simp add: createUser_def APIResponse_simps status_defs message_defs)

lemma createUser_lookup_failed:
  "un (RequestBody req) = Inr u \<Longrightarrow> isEmailValid (Email u) \<Longrightarrow>
   fetchUser c (Email u) s = (Inl eb, s1) \<Longrightarrow>
     createUser un c req s = (Inl NilPointerDereference, s1)"
  by (simp add: createUser_def)

lemma createUser_exists:
  "un (RequestBody req) = Inr u \<Longrightarrow> isEmailValid (Email u) \<Longrightarrow>
   fetchUser c (Email u) s = (Inr cur, s1) \<Longrightarrow> Email cur \<noteq> [] \<Longrightarrow>
     createUser un c req s = (Inr (errorResponse 400 ''User already exists''), s1)"
  by (simp add: createUser_def APIResponse_simps status_defs message_defs)

lemma createUser_put_failed:
  "un (RequestBody req) = Inr u \<Longrightarrow> isEmailValid (Email u) \<Longrightarrow>
   fetchUser c (Email u) s = (Inr cur, s1) \<Longrightarrow> Email cur = [] \<Longrightarrow> MarshalMap u = Inr av \<Longrightarrow>
   PutItem c (PutItemInput av tableName) s1 = (Inl err, s2) \<Longrightarrow>
     createUser un c req s = (Inr (errorResponse 400 ''Could not Dynamo Put Item Error''), s2)"
  by (simp add: createUser_def APIResponse_simps status_defs message_defs)

lemma createUser_created:
  "un (RequestBody req) = Inr u \<Longrightarrow> isEmailValid (Email u) \<Longrightarrow>
   fetchUser c (Email u) s = (Inr cur, s1) \<Longrightarrow> Email cur = [] \<Longrightarrow> MarshalMap u = Inr av \<Longrightarrow>
   PutItem c (PutItemInput av tableName) s1 = (Inr out, s2) \<Longrightarrow>
     createUser un c req s = (Inr (envelope 201 (Literal ''null'')), s2)"
  by (simp add: createUser_def APIResponse_simps status_defs message_defs)

lemma updateUser_parse_error:
  "un (RequestBody req) = Inl err \<Longrightarrow>
     updateUser un c req s = (Inr (errorResponse 422 ''Invalid Email''), s)"
  by (simp add: updateUser_def APIResponse_simps status_defs message_defs)

lemma updateUser_lookup_failed:
  "un (RequestBody req) = Inr u \<Longrightarrow> fetchUser c (Email u) s = (Inl eb, s1) \<Longrightarrow>
     updateUser un c req s = (Inl NilPointerDereference, s1)"
  by (simp add: updateUser_def)

lemma updateUser_missing:
  "un (RequestBody req) = Inr u \<Longrightarrow> fetchUser c (Email u) s = (Inr cur, s1) \<Longrightarrow> Email cur = [] \<Longrightarrow>
     updateUser un c req s = (Inr (errorResponse 400 ''User does not exist''), s1)"
  by (simp add: updateUser_def APIResponse_simps status_defs message_defs)

lemma updateUser_put_failed:
  "un (RequestBody req) = Inr u \<Longrightarrow> fetchUser c (Email u) s = (Inr cur, s1) \<Longrightarrow>
   Email cur \<noteq> [] \<Longrightarrow> MarshalMap u = Inr av \<Longrightarrow>
   PutItem c (PutItemInput av tableName) s1 = (Inl err, s2) \<Longrightarrow>
     updateUser un c req s = (Inr (errorResponse 400 ''Could not Dynamo Put Item Error''), s2)"
  by (simp add: updateUser_def APIResponse_simps status_defs message_defs)

lemma updateUser_updated:
  "un (RequestBody req) = Inr u \<Longrightarrow> fetchUser c (Email u) s = (Inr cur, s1) \<Longrightarrow>
   Email cur \<noteq> [] \<Longrightarrow> MarshalMap u = Inr av \<Longrightarrow>
   PutItem c (PutItemInput av tableName) s1 = (Inr out, s2) \<Longrightarrow>
     updateUser un c req s = (Inr (envelope 201 (Literal ''null'')), s2)"
  by (simp add: updateUser_def APIResponse_simps status_defs message_defs)

lemma deleteUser_ok:
  "DeleteItem c (DeleteItemInput [''email'' \<mapsto> S (queryParam req ''email'')] tableName) s
     = (Inr out, s') \<Longrightarrow>
   deleteUser c req s = (Inr (envelope 200 (Marshalled (BodyDeleteItemOutput out))), s')"
  by (simp add: deleteUser_def APIResponse_simps status_defs message_defs)

lemma deleteUser_failed:
  "DeleteItem c (DeleteItemInput [''email'' \<mapsto> S (queryParam req ''email'')] tableName) s
     = (Inl err, s') \<Longrightarrow>
   deleteUser c req s = (Inr (errorResponse 400 ''Could not delete item''), s')"
  by (simp add: deleteUser_def APIResponse_simps status_defs message_defs)

lemma showUser_cases:
  "showUser c email s =
     (case fetchUser c email s of
        (Inl eb, s') \<Rightarrow> (Inr (APIResponse 400 (BodyErrorBody eb)), s')
      | (Inr u, s') \<Rightarrow> (Inr (envelope 200 (Marshalled (BodyUser u))), s'))"
  by (simp add: showUser_def APIResponse_simps status_defs split: prod.splits sum.splits)

lemma showUser_lookup_failed:
  "GetItem c (GetItemInput [''email'' \<mapsto> S email] tableName) s = (Inl err, s') \<Longrightarrow>
     showUser c email s = (Inr (errorResponse 400 ''Failed to fetch record''), s')"
  by (simp add: showUser_cases fetchUser_fail APIResponse_simps message_defs)

lemma showUser_unmarshal_failed:
  "GetItem c (GetItemInput [''email'' \<mapsto> S email] tableName) s = (Inr (GetItemOutput it), s') \<Longrightarrow>
   UnmarshalMap it = Inl err \<Longrightarrow>
     showUser c email s = (Inr (errorResponse 400 ''Failed to unmarshal record''), s')"
  by (simp add: showUser_cases fetchUser_item APIResponse_simps message_defs)

lemma showUser_found:
  "GetItem c (GetItemInput [''email'' \<mapsto> S email] tableName) s = (Inr (GetItemOutput it), s') \<Longrightarrow>
   UnmarshalMap it = Inr user \<Longrightarrow>
     showUser c email s = (Inr (envelope 200 (Marshalled (BodyUser user))), s')"
  by (simp add: showUser_cases fetchUser_item)

lemma getUser_show:
  "queryParam req ''email'' \<noteq> [] \<Longrightarrow> getUser c req s = showUser c (queryParam req ''email'') s"
  by (simp add: getUser_def)

lemma getUser_list:
  "queryParam req ''email'' = [] \<Longrightarrow> getUser c req s = listUsers c s"
  by (simp add: getUser_def)

lemma listUsers_ok:
  "Scan c (ScanInput tableName) s = (Inr out, s') \<Longrightarrow>
     listUsers c s = (Inr (envelope 200 (Marshalled (BodyScanOutput out))), s')"
  by (simp add: listUsers_def APIResponse_simps status_defs)

lemma listUsers_failed:
  "Scan c (ScanInput tableName) s = (Inl err, s') \<Longrightarrow>
     listUsers c s = (Inr (errorResponse 400 ''Failed to fetch record''), s')"
  by (simp add: listUsers_def APIResponse_simps status_defs message_defs)

lemma getUser_Path: "getUser c (req\<lparr>Path := p\<rparr>) s = getUser c req s"
  by (simp add: getUser_def queryParam_def)

lemma createUser_Path: "createUser un c (req\<lparr>Path := p\<rparr>) s = createUser un c req s"
  by (simp add: createUser_def)

lemma updateUser_Path: "updateUser un c (req\<lparr>Path := p\<rparr>) s = updateUser un c req s"
  by (simp add: updateUser_def)

lemma deleteUser_Path: "deleteUser c (req\<lparr>Path := p\<rparr>) s = deleteUser c req s"
  by (simp add: deleteUser_def queryParam_def)

lemma handler_Path: "handler un c (req\<lparr>Path := p\<rparr>) s = handler un c req s"
  by (simp add: handler_def getUser_Path createUser_Path updateUser_Path deleteUser_Path)


section \<open>Package \<open>user\<close> against the main file\<close>

lemmas user_message_defs =
  user_ErrorFailedToUnmarshalRecord_def user_ErrorFailedToFetchRecord_def
  user_ErrorInvalidUserData_def user_ErrorInvalidEmail_def user_ErrorCouldNotMarshalItem_def
  user_ErrorCouldNotDeleteItem_def user_ErrorCouldNotDynamoPutItem_def
  user_ErrorUserAlreadyExists_def user_ErrorUserDoesNotExists_def

lemma FetchUser_fetchUser:
  "fetchUser c e s =
     (case FetchUser e tableName c s of
        (Inl err, s') \<Rightarrow>
          (Inl \<lparr>ErrorMsg = Some (if err = errors_New ''failed to fetch record''
                                  then ''Failed to fetch record''
                                  else ''Failed to unmarshal record'')\<rparr>, s')
      | (Inr u, s') \<Rightarrow> (Inr u, s'))"
  by (simp add: fetchUser_def FetchUser_def message_defs user_message_defs
      split: prod.splits sum.splits GetItemOutput.splits)

lemma FetchUser_errors:
  "fst (FetchUser e tableName c s) = Inl err \<Longrightarrow>
     err = errors_New ''failed to fetch record'' \<or> err = errors_New ''failed to unmarshal record''"
  by (auto simp: FetchUser_def user_message_defs
      split: prod.splits sum.splits GetItemOutput.splits)

lemma fetch_equiv:
  "snd (FetchUser e tableName c s) = snd (fetchUser c e s)
   \<and> (\<forall>u. fst (FetchUser e tableName c s) = Inr u \<longleftrightarrow> fst (fetchUser c e s) = Inr u)
   \<and> (fst (FetchUser e tableName c s) = Inl (errors_New ''failed to fetch record'')
        \<longleftrightarrow> fst (fetchUser c e s) = Inl \<lparr>ErrorMsg = Some ''Failed to fetch record''\<rparr>)
   \<and> (fst (FetchUser e tableName c s) = Inl (errors_New ''failed to unmarshal record'')
        \<longleftrightarrow> fst (fetchUser c e s) = Inl \<lparr>ErrorMsg = Some ''Failed to unmarshal record''\<rparr>)"
proof -
  obtain r s' where r: "FetchUser e tableName c s = (r, s')" by (cases "FetchUser e tableName c s")
  show ?thesis
  proof (cases r)
    case (Inl err)
    with r FetchUser_errors[of e c s err] show ?thesis
      by (auto simp: FetchUser_fetchUser)
  next
    case (Inr u)
    with r show ?thesis by (simp add: FetchUser_fetchUser)
  qed
qed

lemma create_equiv:
  "(let X = CreateUser isEmailValid unmarshal req tableName c s;
        Y = createUser unmarshal c req s
    in snd X = snd Y
     \<and> (fst X = Inl NilPointerDereference \<longleftrightarrow> fst Y = Inl NilPointerDereference)
     \<and> ((\<exists>u. fst X = Inr (Inr u)) \<longleftrightarrow> fst Y = Inr (envelope 201 (Literal ''null'')))
     \<and> (\<forall>u. fst X = Inr (Inr u) \<longrightarrow> unmarshal (RequestBody req) = Inr u)
     \<and> (fst X = Inr (Inl (errors_New ''invalid user data''))
          \<longleftrightarrow> fst Y = Inr (errorResponse 422 ''Invalid User Data''))
     \<and> (fst X = Inr (Inl (errors_New ''invalid email''))
          \<longleftrightarrow> fst Y = Inr (errorResponse 400 ''Invalid Email''))
     \<and> (fst X = Inr (Inl (errors_New ''user.User already exists''))
          \<longleftrightarrow> fst Y = Inr (errorResponse 400 ''User already exists''))
     \<and> (fst X = Inr (Inl (errors_New ''could not marshal item''))
          \<longleftrightarrow> fst Y = Inr (errorResponse 400 ''Could not marshal item''))
     \<and> (fst X = Inr (Inl (errors_New ''could not dynamo put item error''))
          \<longleftrightarrow> fst Y = Inr (errorResponse 400 ''Could not Dynamo Put Item Error'')))"
  unfolding Let_def CreateUser_def createUser_def FetchUser_fetchUser
  by (simp add: APIResponse_simps status_defs message_defs user_message_defs
      errorResponse_eq_iff errorResponse_neq_envelope_Literal
      errorResponse_neq_envelope_Literal[symmetric] MarshalMap_def
      split: prod.splits sum.splits)

lemma update_equiv:
  "(let X = UpdateUser unmarshal req tableName c s;
        Y = updateUser unmarshal c req s
    in snd X = snd Y
     \<and> (fst X = Inl NilPointerDereference \<longleftrightarrow> fst Y = Inl NilPointerDereference)
     \<and> ((\<exists>u. fst X = Inr (Inr u)) \<longleftrightarrow> fst Y = Inr (envelope 201 (Literal ''null'')))
     \<and> (\<forall>u. fst X = Inr (Inr u) \<longrightarrow> unmarshal (RequestBody req) = Inr u)
     \<and> (fst X = Inr (Inl (errors_New ''invalid email''))
          \<longleftrightarrow> fst Y = Inr (errorResponse 422 ''Invalid Email''))
     \<and> (fst X = Inr (Inl (errors_New ''user.User does not exist''))
          \<longleftrightarrow> fst Y = Inr (errorResponse 400 ''User does not exist''))
     \<and> (fst X = Inr (Inl (errors_New ''could not marshal item''))
          \<longleftrightarrow> fst Y = Inr (errorResponse 400 ''Could not marshal item''))
     \<and> (fst X = Inr (Inl (errors_New ''could not dynamo put item error''))
          \<longleftrightarrow> fst Y = Inr (errorResponse 400 ''Could not Dynamo Put Item Error'')))"
  unfolding Let_def UpdateUser_def updateUser_def FetchUser_fetchUser
  by (simp add: APIResponse_simps status_defs message_defs user_message_defs
      errorResponse_eq_iff errorResponse_neq_envelope_Literal
      errorResponse_neq_envelope_Literal[symmetric] MarshalMap_def
      split: prod.splits sum.splits)

lemma delete_equiv:
  "(let X = DeleteUser req tableName c s;
        Y = deleteUser c req s
    in snd X = snd Y
     \<and> (fst X = None
          \<longleftrightarrow> (\<exists>out. fst Y = Inr (envelope 200 (Marshalled (BodyDeleteItemOutput out)))))
     \<and> (fst X = Some (errors_New ''could not delete item'')
          \<longleftrightarrow> fst Y = Inr (errorResponse 400 ''Could not delete item'')))"
  unfolding Let_def DeleteUser_def deleteUser_def
  by (simp add: APIResponse_simps status_defs message_defs user_message_defs
      errorResponse_def envelope_eq_iff split: prod.splits sum.splits)


section \<open>Runs on the two clients\<close>

lemma memClient_GetItem:
  "GetItem memClient (GetItemInput [''email'' \<mapsto> S e] tn) t =
     (Inr (GetItemOutput (case map_of t e of None \<Rightarrow> Map.empty | Some m \<Rightarrow> m)), t)"
  by (simp add: memClient_def keyOf_def)

lemma memClient_PutItem:
  "keyOf av = Some e \<Longrightarrow>
     PutItem memClient (PutItemInput av tn) t =
       (Inr (PutItemOutput Map.empty), (e, av) # filter (\<lambda>p. fst p \<noteq> e) t)"
  by (simp add: memClient_def)

lemma memClient_DeleteItem:
  "DeleteItem memClient (DeleteItemInput [''email'' \<mapsto> S e] tn) t =
     (Inr (DeleteItemOutput Map.empty), filter (\<lambda>p. fst p \<noteq> e) t)"
  by (simp add: memClient_def keyOf_def)

lemma memClient_Scan: "Scan memClient inp t = (Inr (ScanOutput (map snd t) Map.empty), t)"
  by (simp add: memClient_def)

lemma downClient_calls:
  "GetItem downClient gi s = (Inl RequestError, s)"
  "Scan downClient si s = (Inl RequestError, s)"
  "PutItem downClient pi s = (Inl RequestError, s)"
  "DeleteItem downClient di s = (Inl RequestError, s)"
  by (simp_all add: downClient_def)

lemma keyOf_MarshalMap:
  "MarshalMap u = Inr av \<Longrightarrow> Email u \<noteq> [] \<Longrightarrow> keyOf av = Some (Email u)"
  by (auto simp: MarshalMap_def keyOf_def encodeString_def)

lemma decodes_hit: "decodes text u text = Inr u"
  by (simp add: decodes_def)

lemma request_simps:
  "HTTPMethod (request m q b) = m"
  "Path (request m q b) = ''/''"
  "QueryStringParameters (request m q b) = q"
  "RequestBody (request m q b) = b"
  by (simp_all add: request_def)

lemma queryParam_request:
  "queryParam (request m q b) k = (case q k of None \<Rightarrow> [] | Some v \<Rightarrow> v)"
  by (simp add: queryParam_def request_def)

lemma Email_ada: "Email ada = ''a@b.com''"
  by (simp add: ada_def)

lemma fetchUser_memClient:
  "fetchUser memClient e t =
     (case UnmarshalMap (case map_of t e of None \<Rightarrow> Map.empty | Some m \<Rightarrow> m) of
        Inl err \<Rightarrow> (Inl \<lparr>ErrorMsg = Some ErrorFailedToUnmarshalRecord\<rparr>, t)
      | Inr u \<Rightarrow> (Inr u, t))"
  by (simp add: fetchUser_item[OF memClient_GetItem])

lemma MarshalMap_ada:
  "MarshalMap ada = Inr [''email'' \<mapsto> S ''a@b.com'', ''firstName'' \<mapsto> S ''Ada'',
     ''lastName'' \<mapsto> S ''Lovelace'']"
  by (simp add: MarshalMap_def ada_def encodeString_def)

lemma fetchUser_memClient_empty:
  "fetchUser memClient e [] = (Inr \<lparr>Email = [], FirstName = [], LastName = []\<rparr>, [])"
  by (simp add: fetchUser_memClient UnmarshalMap_empty)

lemma PutItem_memClient_ada:
  "PutItem memClient (PutItemInput [''email'' \<mapsto> S ''a@b.com'', ''firstName'' \<mapsto> S ''Ada'',
       ''lastName'' \<mapsto> S ''Lovelace''] tableName) [] =
     (Inr (PutItemOutput Map.empty),
      [(''a@b.com'', [''email'' \<mapsto> S ''a@b.com'', ''firstName'' \<mapsto> S ''Ada'',
         ''lastName'' \<mapsto> S ''Lovelace''])])"
  using memClient_PutItem[OF keyOf_MarshalMap[OF MarshalMap_ada], of tableName "[]"]
  by (simp add: Email_ada)

lemma table_ada_put:
  "PutItem memClient (PutItemInput [''email'' \<mapsto> S ''a@b.com'', ''firstName'' \<mapsto> S ''Ada'',
       ''lastName'' \<mapsto> S ''Lovelace''] tableName)
     [(''a@b.com'', [''email'' \<mapsto> S ''a@b.com'', ''firstName'' \<mapsto> S ''Ada'',
         ''lastName'' \<mapsto> S ''Lovelace''])] =
     (Inr (PutItemOutput Map.empty),
      [(''a@b.com'', [''email'' \<mapsto> S ''a@b.com'', ''firstName'' \<mapsto> S ''Ada'',
         ''lastName'' \<mapsto> S ''Lovelace''])])"
  using memClient_PutItem[OF keyOf_MarshalMap[OF MarshalMap_ada], of tableName
      "[(''a@b.com'', [''email'' \<mapsto> S ''a@b.com'', ''firstName'' \<mapsto> S ''Ada'',
         ''lastName'' \<mapsto> S ''Lovelace''])]"]
  by (simp add: Email_ada)

lemma fetchUser_memClient_ada:
  "fetchUser memClient ''a@b.com''
     [(''a@b.com'', [''email'' \<mapsto> S ''a@b.com'', ''firstName'' \<mapsto> S ''Ada'',
         ''lastName'' \<mapsto> S ''Lovelace''])] =
   (Inr ada, [(''a@b.com'', [''email'' \<mapsto> S ''a@b.com'', ''firstName'' \<mapsto> S ''Ada'',
         ''lastName'' \<mapsto> S ''Lovelace''])])"
  using UnmarshalMap_MarshalMap[OF MarshalMap_ada] by (simp add: fetchUser_memClient)

text \<open>
  The in-memory table is a store of the kind C3 and C8 speak of, for every user with a
  non-empty email that the table does not hold yet: the lookup finds no item, the write
  succeeds, and the next lookup returns the written item.
\<close>

lemma memClient_absent:
  "map_of t e = None \<Longrightarrow>
     GetItem memClient (GetItemInput [''email'' \<mapsto> S e] tn) t = (Inr (GetItemOutput Map.empty), t)"
  by (simp add: memClient_GetItem)

lemma memClient_read_your_write:
  assumes "MarshalMap u = Inr av" and "Email u \<noteq> []"
  shows "PutItem memClient (PutItemInput av tn) t =
           (Inr (PutItemOutput Map.empty), (Email u, av) # filter (\<lambda>p. fst p \<noteq> Email u) t)"
    and "GetItem memClient (GetItemInput [''email'' \<mapsto> S (Email u)] tn)
           ((Email u, av) # filter (\<lambda>p. fst p \<noteq> Email u) t) =
           (Inr (GetItemOutput av), (Email u, av) # filter (\<lambda>p. fst p \<noteq> Email u) t)"
  using memClient_PutItem[OF keyOf_MarshalMap[OF assms]] by (simp_all add: memClient_GetItem)

lemma pagingClient_Scan: "Scan pagingClient inp t = (Inr (scanPage t), t)"
  by (simp add: pagingClient_def)

text \<open>The query parameter \<open>email\<close> decides between the lookup and the scan.\<close>

lemma getUser_lookup:
  "QueryStringParameters req ''email'' = Some email \<Longrightarrow> email \<noteq> [] \<Longrightarrow>
     getUser c req s = showUser c email s"
  by (simp add: getUser_def queryParam_def)

lemma getUser_scan:
  "QueryStringParameters req ''email'' = None \<or> QueryStringParameters req ''email'' = Some [] \<Longrightarrow>
     getUser c req s = listUsers c s"
  by (auto simp: getUser_def queryParam_def)

lemma deleteUser_key:
  "QueryStringParameters req ''email'' = Some email \<or>
   QueryStringParameters req ''email'' = None \<and> email = [] \<Longrightarrow>
     queryParam req ''email'' = email"
  by (auto simp: queryParam_def)

section \<open>The claims\<close>

subsection \<open>C1: every request gets a response\<close>

text \<open>
  C1 says that the handler returns a response for every request and never ends in a
  fatal state, also when the lookup inside the create flow fails and returns no record.
  The code does not do that. The request below is a well-formed POST of a valid user;
  the store cannot be reached, so \<open>fetchUser\<close> returns \<open>(nil, &ErrorBody{...})\<close>,
  \<open>createUser\<close> drops the error and reads \<open>currentUser.Email\<close> through the nil
  pointer: the call panics and no response is returned.
\<close>

theorem create_lookup_failure_panics:
  "handler (decodes adaJSON ada) downClient (request ''POST'' Map.empty adaJSON) () =
     (Inl NilPointerDereference, ())"
proof -
  have "fetchUser downClient (Email ada) () = (Inl \<lparr>ErrorMsg = Some ErrorFailedToFetchRecord\<rparr>, ())"
    by (rule fetchUser_fail) (rule downClient_calls)
  then have "createUser (decodes adaJSON ada) downClient (request ''POST'' Map.empty adaJSON) ()
      = (Inl NilPointerDereference, ())"
    by (intro createUser_lookup_failed[where u = ada])
       (simp_all add: request_simps decodes_hit Email_ada valid_ada)
  then show ?thesis by (simp add: handler_POST request_simps)
qed

subsection \<open>C2: the responses of POST\<close>

text \<open>
  C2, as amended: for every POST request, a body that does not parse as a user record
  gives HTTP 422 with the error \<open>Invalid User Data\<close>; otherwise an email that fails
  validation gives HTTP 400 with the error \<open>Invalid Email\<close>; and when every step
  succeeds the response is HTTP 201 with the body \<open>null\<close>, the JSON text of the nil
  value the handler passes (not the empty text).
\<close>

theorem post_responses:
  assumes "HTTPMethod req = ''POST''"
  shows "(unmarshal (RequestBody req) = Inl err \<longrightarrow>
            handler unmarshal c req s = (Inr (errorResponse 422 ''Invalid User Data''), s))
       \<and> (unmarshal (RequestBody req) = Inr u \<and> \<not> isEmailValid (Email u) \<longrightarrow>
            handler unmarshal c req s = (Inr (errorResponse 400 ''Invalid Email''), s))
       \<and> (unmarshal (RequestBody req) = Inr u \<and> isEmailValid (Email u) \<and>
          fetchUser c (Email u) s = (Inr cur, s1) \<and> Email cur = [] \<and>
          MarshalMap u = Inr av \<and> PutItem c (PutItemInput av tableName) s1 = (Inr out, s2) \<longrightarrow>
            handler unmarshal c req s = (Inr (envelope 201 (Literal ''null'')), s2))"
  using assms
  by (simp add: handler_POST createUser_parse_error createUser_invalid_email createUser_created)

text \<open>The claim as stated fails on the created user's response: its body is \<open>null\<close>.\<close>

theorem create_success_body_not_empty:
  "handler (decodes adaJSON ada) memClient (request ''POST'' Map.empty adaJSON) [] =
     (Inr \<lparr>StatusCode = 201, Headers = [''Content-Type'' \<mapsto> ''application/json''],
           Body = Literal ''null''\<rparr>,
      [(''a@b.com'', [''email'' \<mapsto> S ''a@b.com'', ''firstName'' \<mapsto> S ''Ada'',
                      ''lastName'' \<mapsto> S ''Lovelace''])])
   \<and> Literal ''null'' \<noteq> Literal ''''"
proof -
  let ?av = "[''email'' \<mapsto> S ''a@b.com'', ''firstName'' \<mapsto> S ''Ada'', ''lastName'' \<mapsto> S ''Lovelace'']"
  have m: "MarshalMap ada = Inr ?av"
    by (simp add: MarshalMap_def ada_def encodeString_def)
  have f: "fetchUser memClient (Email ada) [] = (Inr \<lparr>Email = [], FirstName = [], LastName = []\<rparr>, [])"
    by (simp add: fetchUser_memClient UnmarshalMap_empty)
  have p: "PutItem memClient (PutItemInput ?av tableName) [] =
      (Inr (PutItemOutput Map.empty), [(''a@b.com'', ?av)])"
    using memClient_PutItem[OF keyOf_MarshalMap[OF m], of tableName "[]"] by (simp add: Email_ada)
  have "createUser (decodes adaJSON ada) memClient (request ''POST'' Map.empty adaJSON) [] =
      (Inr (envelope 201 (Literal ''null'')), [(''a@b.com'', ?av)])"
    by (rule createUser_created[where u = ada, OF _ _ f _ m p])
       (simp_all add: request_simps decodes_hit Email_ada valid_ada)
  then show ?thesis by (simp add: handler_POST request_simps envelope_def)
qed

theorem post_responses_witness:
  "handler (decodes adaJSON ada) memClient (request ''POST'' Map.empty ''{'') [] =
     (Inr (errorResponse 422 ''Invalid User Data''), [])
   \<and> handler (decodes ''{}'' \<lparr>Email = [], FirstName = [], LastName = []\<rparr>) memClient
       (request ''POST'' Map.empty ''{}'') [] =
     (Inr (errorResponse 400 ''Invalid Email''), [])
   \<and> handler (decodes adaJSON ada) memClient (request ''POST'' Map.empty adaJSON) [] =
     (Inr (envelope 201 (Literal ''null'')),
      [(''a@b.com'', [''email'' \<mapsto> S ''a@b.com'', ''firstName'' \<mapsto> S ''Ada'',
         ''lastName'' \<mapsto> S ''Lovelace''])])"
proof -
  have post: "HTTPMethod (request ''POST'' q b) = ''POST''" for q b
    by (simp add: request_simps)
  have 1: "decodes adaJSON ada (RequestBody (request ''POST'' Map.empty ''{'')) =
      Inl (LibraryError ''SyntaxError'')"
    by (simp add: request_simps decodes_def adaJSON_def)
  have 2: "decodes ''{}'' \<lparr>Email = [], FirstName = [], LastName = []\<rparr>
      (RequestBody (request ''POST'' Map.empty ''{}'')) = Inr \<lparr>Email = [], FirstName = [], LastName = []\<rparr>
    \<and> \<not> isEmailValid (Email \<lparr>Email = [], FirstName = [], LastName = []\<rparr>)"
    by (simp add: request_simps decodes_hit invalid_empty)
  have 3: "decodes adaJSON ada (RequestBody (request ''POST'' Map.empty adaJSON)) = Inr ada \<and>
     isEmailValid (Email ada) \<and>
     fetchUser memClient (Email ada) [] = (Inr \<lparr>Email = [], FirstName = [], LastName = []\<rparr>, []) \<and>
     Email \<lparr>Email = [], FirstName = [], LastName = []\<rparr> = [] \<and>
     MarshalMap ada = Inr [''email'' \<mapsto> S ''a@b.com'', ''firstName'' \<mapsto> S ''Ada'',
         ''lastName'' \<mapsto> S ''Lovelace''] \<and>
     PutItem memClient (PutItemInput [''email'' \<mapsto> S ''a@b.com'', ''firstName'' \<mapsto> S ''Ada'',
         ''lastName'' \<mapsto> S ''Lovelace''] tableName) [] =
       (Inr (PutItemOutput Map.empty),
        [(''a@b.com'', [''email'' \<mapsto> S ''a@b.com'', ''firstName'' \<mapsto> S ''Ada'',
           ''lastName'' \<mapsto> S ''Lovelace''])])"
    by (simp add: request_simps decodes_hit Email_ada valid_ada fetchUser_memClient_empty
        MarshalMap_ada PutItem_memClient_ada)
  note a = post_responses[where unmarshal = "decodes adaJSON ada" and c = memClient
      and req = "request ''POST'' Map.empty ''{''" and s = "[]"
      and err = "LibraryError ''SyntaxError''", OF post, THEN conjunct1, rule_format, OF 1]
  note b = post_responses[where unmarshal = "decodes ''{}'' \<lparr>Email = [], FirstName = [], LastName = []\<rparr>"
      and c = memClient and req = "request ''POST'' Map.empty ''{}''" and s = "[]"
      and u = "\<lparr>Email = [], FirstName = [], LastName = []\<rparr>",
      OF post, THEN conjunct2, THEN conjunct1, rule_format, OF 2]
  note c = post_responses[where unmarshal = "decodes adaJSON ada" and c = memClient
      and req = "request ''POST'' Map.empty adaJSON" and s = "[]" and u = ada,
      OF post, THEN conjunct2, THEN conjunct2, rule_format, OF 3]
  from a b c show ?thesis by simp
qed

subsection \<open>C3: creating the same email twice\<close>

text \<open>
  C3: from a store in which a valid email is absent (the lookup returns no item), on
  which the first write succeeds and which then returns the written item for that email,
  the first POST yields HTTP 201 and the second HTTP 400 with \<open>User already exists\<close>.
  In any state, when the lookup returns a record, the handler rejects exactly when that
  record's email field is not empty, and then leaves the store as the lookup left it.
\<close>

theorem create_twice:
  assumes post: "HTTPMethod req = ''POST''"
    and body: "unmarshal (RequestBody req) = Inr u"
    and valid: "isEmailValid (Email u)"
    and absent: "GetItem c (GetItemInput [''email'' \<mapsto> S (Email u)] tableName) s0 =
                   (Inr (GetItemOutput Map.empty), s1)"
    and av: "MarshalMap u = Inr av"
    and put: "PutItem c (PutItemInput av tableName) s1 = (Inr out, s2)"
    and stored: "GetItem c (GetItemInput [''email'' \<mapsto> S (Email u)] tableName) s2 =
                   (Inr (GetItemOutput av), s3)"
  shows "handler unmarshal c req s0 = (Inr (envelope 201 (Literal ''null'')), s2)
       \<and> handler unmarshal c req s2 = (Inr (errorResponse 400 ''User already exists''), s3)
       \<and> (\<forall>s cur s'. fetchUser c (Email u) s = (Inr cur, s') \<longrightarrow>
            (fst (handler unmarshal c req s) = Inr (errorResponse 400 ''User already exists'')
               \<longleftrightarrow> Email cur \<noteq> [])
            \<and> (Email cur \<noteq> [] \<longrightarrow> snd (handler unmarshal c req s) = s'))"
proof (intro conjI allI impI)
  have "fetchUser c (Email u) s0 = (Inr \<lparr>Email = [], FirstName = [], LastName = []\<rparr>, s1)"
    by (simp add: fetchUser_item[OF absent] UnmarshalMap_empty)
  then show "handler unmarshal c req s0 = (Inr (envelope 201 (Literal ''null'')), s2)"
    using createUser_created[where un = unmarshal and req = req, OF body valid _ _ av put]
    by (simp add: handler_POST[OF post])
next
  have ne: "Email u \<noteq> []" using isEmailValid_length[OF valid] by auto
  have "fetchUser c (Email u) s2 = (Inr u, s3)"
    by (simp add: fetchUser_item[OF stored] UnmarshalMap_MarshalMap[OF av])
  then show "handler unmarshal c req s2 = (Inr (errorResponse 400 ''User already exists''), s3)"
    using createUser_exists[where un = unmarshal and req = req, OF body valid _ ne]
    by (simp add: handler_POST[OF post])
next
  fix s cur s'
  assume f: "fetchUser c (Email u) s = (Inr cur, s')"
  show "fst (handler unmarshal c req s) = Inr (errorResponse 400 ''User already exists'')
          \<longleftrightarrow> Email cur \<noteq> []"
  proof (cases "Email cur = []")
    case False
    then show ?thesis
      using createUser_exists[where un = unmarshal and req = req, OF body valid f]
      by (simp add: handler_POST[OF post])
  next
    case True
    obtain r s2' where p: "PutItem c (PutItemInput av tableName) s' = (r, s2')"
      by (cases "PutItem c (PutItemInput av tableName) s'")
    show ?thesis
    proof (cases r)
      case (Inl err)
      with p True show ?thesis
        using createUser_put_failed[where un = unmarshal and req = req, OF body valid f _ av]
        by (simp add: handler_POST[OF post] errorResponse_eq_iff)
    next
      case (Inr out')
      with p True show ?thesis
        using createUser_created[where un = unmarshal and req = req, OF body valid f _ av]
        by (simp add: handler_POST[OF post] errorResponse_neq_envelope_Literal[symmetric])
    qed
  qed
next
  fix s cur s'
  assume f: "fetchUser c (Email u) s = (Inr cur, s')" and ne: "Email cur \<noteq> []"
  show "snd (handler unmarshal c req s) = s'"
    using createUser_exists[where un = unmarshal and req = req, OF body valid f ne]
    by (simp add: handler_POST[OF post])
qed

theorem create_twice_witness:
  "handler (decodes adaJSON ada) memClient (request ''POST'' Map.empty adaJSON) [] =
     (Inr (envelope 201 (Literal ''null'')),
      [(''a@b.com'', [''email'' \<mapsto> S ''a@b.com'', ''firstName'' \<mapsto> S ''Ada'',
         ''lastName'' \<mapsto> S ''Lovelace''])])
   \<and> handler (decodes adaJSON ada) memClient (request ''POST'' Map.empty adaJSON)
       [(''a@b.com'', [''email'' \<mapsto> S ''a@b.com'', ''firstName'' \<mapsto> S ''Ada'',
         ''lastName'' \<mapsto> S ''Lovelace''])] =
     (Inr (errorResponse 400 ''User already exists''),
      [(''a@b.com'', [''email'' \<mapsto> S ''a@b.com'', ''firstName'' \<mapsto> S ''Ada'',
         ''lastName'' \<mapsto> S ''Lovelace''])])
   \<and> fst (handler (decodes adaJSON ada) memClient (request ''POST'' Map.empty adaJSON) []) \<noteq>
       Inr (errorResponse 400 ''User already exists'')"
proof -
  let ?av = "[''email'' \<mapsto> S ''a@b.com'', ''firstName'' \<mapsto> S ''Ada'', ''lastName'' \<mapsto> S ''Lovelace'']"
  let ?t = "[(''a@b.com'', ?av)]"
  let ?post = "request ''POST'' Map.empty adaJSON"
  have 1: "HTTPMethod ?post = ''POST''" by (simp add: request_simps)
  have 2: "decodes adaJSON ada (RequestBody ?post) = Inr ada"
    by (simp add: request_simps decodes_hit)
  have 3: "isEmailValid (Email ada)" by (simp add: Email_ada valid_ada)
  have 4: "GetItem memClient (GetItemInput [''email'' \<mapsto> S (Email ada)] tableName) [] =
        (Inr (GetItemOutput Map.empty), [])"
    by (simp add: memClient_GetItem)
  have 5: "MarshalMap ada = Inr ?av" by (rule MarshalMap_ada)
  have 6: "PutItem memClient (PutItemInput ?av tableName) [] = (Inr (PutItemOutput Map.empty), ?t)"
    by (rule PutItem_memClient_ada)
  have 7: "GetItem memClient (GetItemInput [''email'' \<mapsto> S (Email ada)] tableName) ?t =
        (Inr (GetItemOutput ?av), ?t)"
    by (simp add: memClient_GetItem Email_ada)
  note r = create_twice[where unmarshal = "decodes adaJSON ada" and req = ?post and u = ada
      and c = memClient, OF 1 2 3 4 5 6 7]
  have 8: "fetchUser memClient (Email ada) [] =
      (Inr \<lparr>Email = [], FirstName = [], LastName = []\<rparr>, [])"
    by (rule fetchUser_memClient_empty)
  from r[THEN conjunct1] r[THEN conjunct2, THEN conjunct1]
    r[THEN conjunct2, THEN conjunct2, rule_format, OF 8, THEN conjunct1]
  show ?thesis by simp
qed

subsection \<open>C4: the responses of GET\<close>

text \<open>
  C4, as amended: for every GET request whose query parameter \<open>email\<close> is present
  and not empty, the handler looks that exact email up, once; it returns HTTP 400 with
  \<open>Failed to fetch record\<close> when the store's call fails, HTTP 400 with
  \<open>Failed to unmarshal record\<close> when the item cannot be decoded, and HTTP 200 with
  the record otherwise. An email that is not found is not a failure: the store returns
  no item, and the response is HTTP 200 with a record whose three fields are empty.
  When the parameter is absent (or empty) the handler sends one scan call with no limit
  and returns all items of that call's output with HTTP 200, or HTTP 400 with
  \<open>Failed to fetch record\<close> when the scan fails. Those are all items of the table
  when the store returns the table in one call, as the in-memory table does.
\<close>

theorem get_responses:
  assumes "HTTPMethod req = ''GET''"
  shows "(QueryStringParameters req ''email'' = Some email \<and> email \<noteq> [] \<and>
          GetItem c (GetItemInput [''email'' \<mapsto> S email] tableName) s = (Inl err, s') \<longrightarrow>
          handler unmarshal c req s = (Inr (errorResponse 400 ''Failed to fetch record''), s'))
       \<and> (QueryStringParameters req ''email'' = Some email \<and> email \<noteq> [] \<and>
          GetItem c (GetItemInput [''email'' \<mapsto> S email] tableName) s
            = (Inr (GetItemOutput it), s') \<and> UnmarshalMap it = Inl err \<longrightarrow>
          handler unmarshal c req s = (Inr (errorResponse 400 ''Failed to unmarshal record''), s'))
       \<and> (QueryStringParameters req ''email'' = Some email \<and> email \<noteq> [] \<and>
          GetItem c (GetItemInput [''email'' \<mapsto> S email] tableName) s
            = (Inr (GetItemOutput it), s') \<and> UnmarshalMap it = Inr user \<longrightarrow>
          handler unmarshal c req s = (Inr (envelope 200 (Marshalled (BodyUser user))), s'))
       \<and> (QueryStringParameters req ''email'' = Some email \<and> email \<noteq> [] \<and>
          GetItem c (GetItemInput [''email'' \<mapsto> S email] tableName) s
            = (Inr (GetItemOutput Map.empty), s') \<longrightarrow>
          handler unmarshal c req s =
            (Inr (envelope 200
               (Marshalled (BodyUser \<lparr>Email = [], FirstName = [], LastName = []\<rparr>))), s'))
       \<and> ((QueryStringParameters req ''email'' = None \<or>
           QueryStringParameters req ''email'' = Some []) \<and>
          Scan c (ScanInput tableName) s = (Inl err, s') \<longrightarrow>
          handler unmarshal c req s = (Inr (errorResponse 400 ''Failed to fetch record''), s'))
       \<and> ((QueryStringParameters req ''email'' = None \<or>
           QueryStringParameters req ''email'' = Some []) \<and>
          Scan c (ScanInput tableName) s = (Inr (ScanOutput items lastKey), s') \<longrightarrow>
          handler unmarshal c req s =
            (Inr (envelope 200 (Marshalled (BodyScanOutput (ScanOutput items lastKey)))), s'))
       \<and> (QueryStringParameters req ''email'' = None \<or>
          QueryStringParameters req ''email'' = Some [] \<longrightarrow>
          handler unmarshal memClient req t =
            (Inr (envelope 200 (Marshalled (BodyScanOutput (ScanOutput (map snd t) Map.empty)))), t))"
proof (intro conjI impI)
  note g = handler_GET[OF assms]
  show "handler unmarshal c req s = (Inr (errorResponse 400 ''Failed to fetch record''), s')"
    if "QueryStringParameters req ''email'' = Some email \<and> email \<noteq> [] \<and>
          GetItem c (GetItemInput [''email'' \<mapsto> S email] tableName) s = (Inl err, s')"
    using that by (simp add: g getUser_lookup showUser_lookup_failed)
  show "handler unmarshal c req s = (Inr (errorResponse 400 ''Failed to unmarshal record''), s')"
    if "QueryStringParameters req ''email'' = Some email \<and> email \<noteq> [] \<and>
          GetItem c (GetItemInput [''email'' \<mapsto> S email] tableName) s
            = (Inr (GetItemOutput it), s') \<and> UnmarshalMap it = Inl err"
    using that showUser_unmarshal_failed[of c email s it s' err] by (simp add: g getUser_lookup)
  show "handler unmarshal c req s = (Inr (envelope 200 (Marshalled (BodyUser user))), s')"
    if "QueryStringParameters req ''email'' = Some email \<and> email \<noteq> [] \<and>
          GetItem c (GetItemInput [''email'' \<mapsto> S email] tableName) s
            = (Inr (GetItemOutput it), s') \<and> UnmarshalMap it = Inr user"
    using that showUser_found[of c email s it s' user] by (simp add: g getUser_lookup)
  show "handler unmarshal c req s =
            (Inr (envelope 200
               (Marshalled (BodyUser \<lparr>Email = [], FirstName = [], LastName = []\<rparr>))), s')"
    if "QueryStringParameters req ''email'' = Some email \<and> email \<noteq> [] \<and>
          GetItem c (GetItemInput [''email'' \<mapsto> S email] tableName) s
            = (Inr (GetItemOutput Map.empty), s')"
    using that showUser_found[OF _ UnmarshalMap_empty, of c email s s']
    by (simp add: g getUser_lookup)
  show "handler unmarshal c req s = (Inr (errorResponse 400 ''Failed to fetch record''), s')"
    if "(QueryStringParameters req ''email'' = None \<or>
           QueryStringParameters req ''email'' = Some []) \<and>
          Scan c (ScanInput tableName) s = (Inl err, s')"
    using that by (simp add: g getUser_scan listUsers_failed)
  show "handler unmarshal c req s =
            (Inr (envelope 200 (Marshalled (BodyScanOutput (ScanOutput items lastKey)))), s')"
    if "(QueryStringParameters req ''email'' = None \<or>
           QueryStringParameters req ''email'' = Some []) \<and>
          Scan c (ScanInput tableName) s = (Inr (ScanOutput items lastKey), s')"
    using that by (simp add: g getUser_scan listUsers_ok)
  show "handler unmarshal memClient req t =
            (Inr (envelope 200 (Marshalled (BodyScanOutput (ScanOutput (map snd t) Map.empty)))), t)"
    if "QueryStringParameters req ''email'' = None \<or>
          QueryStringParameters req ''email'' = Some []"
    using that by (simp add: g getUser_scan listUsers_ok[OF memClient_Scan])
qed

text \<open>
  The claim as stated fails twice. An email that is not in the table gets HTTP 200, not
  HTTP 400. And on a store that pages its scans the response holds the first page, not
  all items: the handler never goes on from \<open>LastEvaluatedKey\<close>.
\<close>

theorem get_not_found_and_paged_scan:
  "handler (decodes adaJSON ada) memClient
      (request ''GET'' [''email'' \<mapsto> ''nobody@example.com''] []) [] =
     (Inr \<lparr>StatusCode = 200, Headers = [''Content-Type'' \<mapsto> ''application/json''],
           Body = Marshalled (BodyUser \<lparr>Email = [], FirstName = [], LastName = []\<rparr>)\<rparr>, [])
   \<and> fst (handler (decodes adaJSON ada) memClient
      (request ''GET'' [''email'' \<mapsto> ''nobody@example.com''] []) []) \<noteq>
     Inr (errorResponse 400 ''Failed to fetch record'')
   \<and> handler (decodes adaJSON ada) pagingClient (request ''GET'' Map.empty [])
       [(''a@b.com'', [''email'' \<mapsto> S ''a@b.com'', ''firstName'' \<mapsto> S ''Ada'',
          ''lastName'' \<mapsto> S ''Lovelace'']),
        (''g@h.org'', [''email'' \<mapsto> S ''g@h.org'', ''firstName'' \<mapsto> S ''Grace'',
          ''lastName'' \<mapsto> S ''Hopper''])] =
     (Inr \<lparr>StatusCode = 200, Headers = [''Content-Type'' \<mapsto> ''application/json''],
           Body = Marshalled (BodyScanOutput (ScanOutput
             [[''email'' \<mapsto> S ''a@b.com'', ''firstName'' \<mapsto> S ''Ada'',
               ''lastName'' \<mapsto> S ''Lovelace'']]
             [''email'' \<mapsto> S ''a@b.com'']))\<rparr>,
      [(''a@b.com'', [''email'' \<mapsto> S ''a@b.com'', ''firstName'' \<mapsto> S ''Ada'',
          ''lastName'' \<mapsto> S ''Lovelace'']),
        (''g@h.org'', [''email'' \<mapsto> S ''g@h.org'', ''firstName'' \<mapsto> S ''Grace'',
          ''lastName'' \<mapsto> S ''Hopper''])])"
proof -
  let ?t = "[(''a@b.com'', [''email'' \<mapsto> S ''a@b.com'', ''firstName'' \<mapsto> S ''Ada'',
          ''lastName'' \<mapsto> S ''Lovelace'']),
        (''g@h.org'', [''email'' \<mapsto> S ''g@h.org'', ''firstName'' \<mapsto> S ''Grace'',
          ''lastName'' \<mapsto> S ''Hopper''])]"
  have 1: "getUser memClient (request ''GET'' [''email'' \<mapsto> ''nobody@example.com''] []) [] =
      (Inr (envelope 200 (Marshalled (BodyUser \<lparr>Email = [], FirstName = [], LastName = []\<rparr>))), [])"
    by (simp add: getUser_show queryParam_request showUser_cases fetchUser_memClient_empty)
  have "Scan pagingClient (ScanInput tableName) ?t =
      (Inr (ScanOutput [[''email'' \<mapsto> S ''a@b.com'', ''firstName'' \<mapsto> S ''Ada'',
               ''lastName'' \<mapsto> S ''Lovelace'']] [''email'' \<mapsto> S ''a@b.com'']), ?t)"
    by (simp add: pagingClient_Scan)
  then have 2: "getUser pagingClient (request ''GET'' Map.empty []) ?t =
      (Inr (envelope 200 (Marshalled (BodyScanOutput (ScanOutput
         [[''email'' \<mapsto> S ''a@b.com'', ''firstName'' \<mapsto> S ''Ada'', ''lastName'' \<mapsto> S ''Lovelace'']]
         [''email'' \<mapsto> S ''a@b.com''])))), ?t)"
    by (simp add: getUser_list queryParam_request listUsers_ok)
  from 1 2 show ?thesis
    by (simp add: handler_GET request_simps envelope_def errorResponse_def)
qed

theorem get_responses_witness:
  "handler (decodes adaJSON ada) downClient (request ''GET'' [''email'' \<mapsto> ''a@b.com''] []) () =
     (Inr (errorResponse 400 ''Failed to fetch record''), ())
   \<and> handler (decodes adaJSON ada) memClient (request ''GET'' [''email'' \<mapsto> ''a@b.com''] [])
       [(''a@b.com'', [''email'' \<mapsto> BOOL True])] =
     (Inr (errorResponse 400 ''Failed to unmarshal record''), [(''a@b.com'', [''email'' \<mapsto> BOOL True])])
   \<and> handler (decodes adaJSON ada) memClient (request ''GET'' [''email'' \<mapsto> ''a@b.com''] [])
       [(''a@b.com'', [''email'' \<mapsto> S ''a@b.com'', ''firstName'' \<mapsto> S ''Ada'',
          ''lastName'' \<mapsto> S ''Lovelace''])] =
     (Inr (envelope 200 (Marshalled (BodyUser ada))),
      [(''a@b.com'', [''email'' \<mapsto> S ''a@b.com'', ''firstName'' \<mapsto> S ''Ada'',
          ''lastName'' \<mapsto> S ''Lovelace''])])
   \<and> handler (decodes adaJSON ada) memClient (request ''GET'' [''email'' \<mapsto> ''a@b.com''] [])
       [(''a@b.com'', [''email'' \<mapsto> S ''a@b.com'', ''FirstName'' \<mapsto> S ''Ada'',
          ''LastName'' \<mapsto> S ''Lovelace''])] =
     (Inr (envelope 200 (Marshalled (BodyUser
        \<lparr>Email = ''a@b.com'', FirstName = ''Ada'', LastName = ''Lovelace''\<rparr>))),
      [(''a@b.com'', [''email'' \<mapsto> S ''a@b.com'', ''FirstName'' \<mapsto> S ''Ada'',
          ''LastName'' \<mapsto> S ''Lovelace''])])
   \<and> handler (decodes adaJSON ada) memClient
       (request ''GET'' [''email'' \<mapsto> ''nobody@example.com''] []) [] =
     (Inr (envelope 200 (Marshalled (BodyUser \<lparr>Email = [], FirstName = [], LastName = []\<rparr>))), [])
   \<and> handler (decodes adaJSON ada) downClient (request ''GET'' Map.empty []) () =
     (Inr (errorResponse 400 ''Failed to fetch record''), ())
   \<and> handler (decodes adaJSON ada) memClient (request ''GET'' [''email'' \<mapsto> []] [])
       [(''a@b.com'', [''email'' \<mapsto> S ''a@b.com'', ''firstName'' \<mapsto> S ''Ada'',
          ''lastName'' \<mapsto> S ''Lovelace''])] =
     (Inr (envelope 200 (Marshalled (BodyScanOutput (ScanOutput
        [[''email'' \<mapsto> S ''a@b.com'', ''firstName'' \<mapsto> S ''Ada'', ''lastName'' \<mapsto> S ''Lovelace'']]
        Map.empty)))),
      [(''a@b.com'', [''email'' \<mapsto> S ''a@b.com'', ''firstName'' \<mapsto> S ''Ada'',
          ''lastName'' \<mapsto> S ''Lovelace''])])
   \<and> handler (decodes adaJSON ada) memClient (request ''GET'' Map.empty [])
       [(''a@b.com'', [''email'' \<mapsto> S ''a@b.com'', ''firstName'' \<mapsto> S ''Ada'',
          ''lastName'' \<mapsto> S ''Lovelace'']),
        (''g@h.org'', [''email'' \<mapsto> S ''g@h.org'', ''firstName'' \<mapsto> S ''Grace'',
          ''lastName'' \<mapsto> S ''Hopper''])] =
     (Inr (envelope 200 (Marshalled (BodyScanOutput (ScanOutput
        [[''email'' \<mapsto> S ''a@b.com'', ''firstName'' \<mapsto> S ''Ada'', ''lastName'' \<mapsto> S ''Lovelace''],
         [''email'' \<mapsto> S ''g@h.org'', ''firstName'' \<mapsto> S ''Grace'', ''lastName'' \<mapsto> S ''Hopper'']]
        Map.empty)))),
      [(''a@b.com'', [''email'' \<mapsto> S ''a@b.com'', ''firstName'' \<mapsto> S ''Ada'',
          ''lastName'' \<mapsto> S ''Lovelace'']),
        (''g@h.org'', [''email'' \<mapsto> S ''g@h.org'', ''firstName'' \<mapsto> S ''Grace'',
          ''lastName'' \<mapsto> S ''Hopper''])])"
proof -
  let ?av = "[''email'' \<mapsto> S ''a@b.com'', ''firstName'' \<mapsto> S ''Ada'', ''lastName'' \<mapsto> S ''Lovelace'']"
  let ?cap = "[''email'' \<mapsto> S ''a@b.com'', ''FirstName'' \<mapsto> S ''Ada'', ''LastName'' \<mapsto> S ''Lovelace'']"
  let ?gv = "[''email'' \<mapsto> S ''g@h.org'', ''firstName'' \<mapsto> S ''Grace'', ''lastName'' \<mapsto> S ''Hopper'']"
  let ?t = "[(''a@b.com'', ?av)]"
  let ?tc = "[(''a@b.com'', ?cap)]"
  let ?t2 = "[(''a@b.com'', ?av), (''g@h.org'', ?gv)]"
  let ?bad = "[(''a@b.com'', [''email'' \<mapsto> BOOL True])]"
  let ?one = "request ''GET'' [''email'' \<mapsto> ''a@b.com''] []"
  let ?nobody = "request ''GET'' [''email'' \<mapsto> ''nobody@example.com''] []"
  let ?blank = "request ''GET'' [''email'' \<mapsto> []] []"
  let ?all = "request ''GET'' Map.empty []"
  have get: "HTTPMethod (request ''GET'' q b) = ''GET''" for q b
    by (simp add: request_simps)
  have 1: "QueryStringParameters ?one ''email'' = Some ''a@b.com'' \<and> ''a@b.com'' \<noteq> [] \<and>
      GetItem downClient (GetItemInput [''email'' \<mapsto> S ''a@b.com''] tableName) ()
        = (Inl RequestError, ())"
    by (simp add: request_simps downClient_calls)
  have 2: "QueryStringParameters ?one ''email'' = Some ''a@b.com'' \<and> ''a@b.com'' \<noteq> [] \<and>
      GetItem memClient (GetItemInput [''email'' \<mapsto> S ''a@b.com''] tableName) ?bad
        = (Inr (GetItemOutput [''email'' \<mapsto> BOOL True]), ?bad) \<and>
      UnmarshalMap [''email'' \<mapsto> BOOL True] = Inl (UnmarshalTypeError ''bool'')"
    by (simp add: request_simps memClient_GetItem UnmarshalMap_bool)
  have 3: "QueryStringParameters ?one ''email'' = Some ''a@b.com'' \<and> ''a@b.com'' \<noteq> [] \<and>
      GetItem memClient (GetItemInput [''email'' \<mapsto> S ''a@b.com''] tableName) ?t
        = (Inr (GetItemOutput ?av), ?t) \<and> UnmarshalMap ?av = Inr ada"
    using UnmarshalMap_MarshalMap[OF MarshalMap_ada]
    by (simp add: request_simps memClient_GetItem)
  have cap: "QueryStringParameters ?one ''email'' = Some ''a@b.com'' \<and> ''a@b.com'' \<noteq> [] \<and>
      GetItem memClient (GetItemInput [''email'' \<mapsto> S ''a@b.com''] tableName) ?tc
        = (Inr (GetItemOutput ?cap), ?tc) \<and>
      UnmarshalMap ?cap = Inr \<lparr>Email = ''a@b.com'', FirstName = ''Ada'', LastName = ''Lovelace''\<rparr>"
    by (simp add: request_simps memClient_GetItem UnmarshalMap_capitals)
  have 4: "QueryStringParameters ?nobody ''email'' = Some ''nobody@example.com'' \<and>
      ''nobody@example.com'' \<noteq> [] \<and>
      GetItem memClient (GetItemInput [''email'' \<mapsto> S ''nobody@example.com''] tableName) []
        = (Inr (GetItemOutput Map.empty), [])"
    by (simp add: request_simps memClient_GetItem)
  have 5: "(QueryStringParameters ?all ''email'' = None \<or>
       QueryStringParameters ?all ''email'' = Some []) \<and>
      Scan downClient (ScanInput tableName) () = (Inl RequestError, ())"
    by (simp add: request_simps downClient_calls)
  have 6: "(QueryStringParameters ?blank ''email'' = None \<or>
       QueryStringParameters ?blank ''email'' = Some []) \<and>
      Scan memClient (ScanInput tableName) ?t = (Inr (ScanOutput [?av] Map.empty), ?t)"
    by (simp add: request_simps memClient_Scan)
  have 7: "QueryStringParameters ?all ''email'' = None \<or>
       QueryStringParameters ?all ''email'' = Some []"
    by (simp add: request_simps)
  note g = get_responses[where unmarshal = "decodes adaJSON ada"]
  note a = g[where c = downClient and s = "()" and req = ?one,
      OF get, THEN conjunct1, rule_format, OF 1]
  note b = g[where c = memClient and s = ?bad and req = ?one,
      OF get, THEN conjunct2, THEN conjunct1, rule_format, OF 2]
  note c = g[where c = memClient and s = ?t and req = ?one,
      OF get, THEN conjunct2, THEN conjunct2, THEN conjunct1, rule_format, OF 3]
  note c' = g[where c = memClient and s = ?tc and req = ?one,
      OF get, THEN conjunct2, THEN conjunct2, THEN conjunct1, rule_format, OF cap]
  note d = g[where c = memClient and s = "[]" and req = ?nobody,
      OF get, THEN conjunct2, THEN conjunct2, THEN conjunct2, THEN conjunct1, rule_format, OF 4]
  note e = g[where c = downClient and s = "()" and req = ?all,
      OF get, THEN conjunct2, THEN conjunct2, THEN conjunct2, THEN conjunct2, THEN conjunct1,
      rule_format, OF 5]
  note f = g[where c = memClient and s = ?t and req = ?blank,
      OF get, THEN conjunct2, THEN conjunct2, THEN conjunct2, THEN conjunct2, THEN conjunct2,
      THEN conjunct1, rule_format, OF 6]
  note h = g[where req = ?all and t = ?t2,
      OF get, THEN conjunct2, THEN conjunct2, THEN conjunct2, THEN conjunct2, THEN conjunct2,
      THEN conjunct2, rule_format, OF 7]
  from a b c c' d e f h show ?thesis by simp
qed

subsection \<open>C5: the responses of PUT\<close>

text \<open>
  C5: for every PUT request, a body that does not parse gives HTTP 422 with the error
  text \<open>Invalid Email\<close>; a looked-up record with an empty email field gives HTTP 400
  with \<open>User does not exist\<close>; and when the record is there and the write succeeds
  the response is HTTP 201.
\<close>

theorem put_responses:
  assumes "HTTPMethod req = ''PUT''"
  shows "(unmarshal (RequestBody req) = Inl err \<longrightarrow>
            handler unmarshal c req s = (Inr (errorResponse 422 ''Invalid Email''), s))
       \<and> (unmarshal (RequestBody req) = Inr u \<and> fetchUser c (Email u) s = (Inr cur, s1) \<and>
          Email cur = [] \<longrightarrow>
            handler unmarshal c req s = (Inr (errorResponse 400 ''User does not exist''), s1))
       \<and> (unmarshal (RequestBody req) = Inr u \<and> fetchUser c (Email u) s = (Inr cur, s1) \<and>
          Email cur \<noteq> [] \<and> MarshalMap u = Inr av \<and>
          PutItem c (PutItemInput av tableName) s1 = (Inr out, s2) \<longrightarrow>
            handler unmarshal c req s = (Inr (envelope 201 (Literal ''null'')), s2))"
  using assms
  by (simp add: handler_PUT updateUser_parse_error updateUser_missing updateUser_updated)

theorem put_responses_witness:
  "handler (decodes adaJSON ada) memClient (request ''PUT'' Map.empty ''{'') [] =
     (Inr (errorResponse 422 ''Invalid Email''), [])
   \<and> handler (decodes adaJSON ada) memClient (request ''PUT'' Map.empty adaJSON) [] =
     (Inr (errorResponse 400 ''User does not exist''), [])
   \<and> handler (decodes adaJSON ada) memClient (request ''PUT'' Map.empty adaJSON)
       [(''a@b.com'', [''email'' \<mapsto> S ''a@b.com'', ''firstName'' \<mapsto> S ''Ada'',
         ''lastName'' \<mapsto> S ''Lovelace''])] =
     (Inr (envelope 201 (Literal ''null'')),
      [(''a@b.com'', [''email'' \<mapsto> S ''a@b.com'', ''firstName'' \<mapsto> S ''Ada'',
         ''lastName'' \<mapsto> S ''Lovelace''])])"
proof -
  let ?t = "[(''a@b.com'', [''email'' \<mapsto> S ''a@b.com'', ''firstName'' \<mapsto> S ''Ada'',
         ''lastName'' \<mapsto> S ''Lovelace''])]"
  have put: "HTTPMethod (request ''PUT'' q b) = ''PUT''" for q b
    by (simp add: request_simps)
  have 1: "decodes adaJSON ada (RequestBody (request ''PUT'' Map.empty ''{'')) =
      Inl (LibraryError ''SyntaxError'')"
    by (simp add: request_simps decodes_def adaJSON_def)
  have 2: "decodes adaJSON ada (RequestBody (request ''PUT'' Map.empty adaJSON)) = Inr ada \<and>
      fetchUser memClient (Email ada) [] = (Inr \<lparr>Email = [], FirstName = [], LastName = []\<rparr>, []) \<and>
      Email \<lparr>Email = [], FirstName = [], LastName = []\<rparr> = []"
    by (simp add: request_simps decodes_hit fetchUser_memClient_empty)
  have 3: "decodes adaJSON ada (RequestBody (request ''PUT'' Map.empty adaJSON)) = Inr ada \<and>
      fetchUser memClient (Email ada) ?t = (Inr ada, ?t) \<and> Email ada \<noteq> [] \<and>
      MarshalMap ada = Inr [''email'' \<mapsto> S ''a@b.com'', ''firstName'' \<mapsto> S ''Ada'',
         ''lastName'' \<mapsto> S ''Lovelace''] \<and>
      PutItem memClient (PutItemInput [''email'' \<mapsto> S ''a@b.com'', ''firstName'' \<mapsto> S ''Ada'',
         ''lastName'' \<mapsto> S ''Lovelace''] tableName) ?t = (Inr (PutItemOutput Map.empty), ?t)"
    by (simp add: request_simps decodes_hit Email_ada fetchUser_memClient_ada MarshalMap_ada
        table_ada_put)
  note a = put_responses[where unmarshal = "decodes adaJSON ada" and c = memClient
      and req = "request ''PUT'' Map.empty ''{''" and s = "[]"
      and err = "LibraryError ''SyntaxError''", OF put, THEN conjunct1, rule_format, OF 1]
  note b = put_responses[where unmarshal = "decodes adaJSON ada" and c = memClient
      and req = "request ''PUT'' Map.empty adaJSON" and s = "[]" and u = ada,
      OF put, THEN conjunct2, THEN conjunct1, rule_format, OF 2]
  note c = put_responses[where unmarshal = "decodes adaJSON ada" and c = memClient
      and req = "request ''PUT'' Map.empty adaJSON" and s = ?t and u = ada,
      OF put, THEN conjunct2, THEN conjunct2, rule_format, OF 3]
  from a b c show ?thesis by simp
qed

subsection \<open>C6: the email validator\<close>

text \<open>
  C6: the validator is a function of its argument alone, and it returns true exactly
  for the strings of 3 to 254 characters that match the pattern: a local part of 1 to 64
  ASCII letters, digits and the listed special characters, an \<open>@\<close>, and a domain of
  dot-separated labels, each of 1 to 63 letters, digits and hyphens with a letter or
  digit at both ends. It returns false for every string of fewer than 3 or more than 254
  characters and for every string that does not hold exactly one \<open>@\<close>;
  \<open>a@b.co\<close> is valid, \<open>ab\<close> and \<open>foo@@bar\<close> are not.
\<close>

theorem validator_characterised:
  "(isEmailValid e \<longleftrightarrow> 3 \<le> length e \<and> length e \<le> 254 \<and> email_pattern e)
   \<and> (length e < 3 \<or> 254 < length e \<or> length (filter (\<lambda>c. c = CHR ''@'') e) \<noteq> 1
        \<longrightarrow> \<not> isEmailValid e)
   \<and> isEmailValid ''a@b.co'' \<and> \<not> isEmailValid ''ab'' \<and> \<not> isEmailValid ''foo@@bar''"
proof (intro conjI impI)
  show iff: "isEmailValid e \<longleftrightarrow> 3 \<le> length e \<and> length e \<le> 254 \<and> email_pattern e"
    by (rule isEmailValid_iff)
  show "\<not> isEmailValid e"
    if "length e < 3 \<or> 254 < length e \<or> length (filter (\<lambda>c. c = CHR ''@'') e) \<noteq> 1"
    using that email_pattern_one_at[of e] by (auto simp: isEmailValid_iff)
  show "isEmailValid ''a@b.co''" by code_simp
  show "\<not> isEmailValid ''ab''" by (simp add: isEmailValid_def)
  show "\<not> isEmailValid ''foo@@bar''"
    using email_pattern_one_at[of "''foo@@bar''"] by (auto simp: isEmailValid_iff)
qed

theorem validator_characterised_witness:
  "isEmailValid ''a@b.com'' \<and> email_pattern ''a@b.com''
   \<and> \<not> isEmailValid ''no-at-sign.example.org''"
proof -
  note v = validator_characterised[where e = "''a@b.com''", THEN conjunct1]
  note w = validator_characterised[where e = "''no-at-sign.example.org''",
      THEN conjunct2, THEN conjunct1, rule_format]
  have 2: "length (filter (\<lambda>c. c = CHR ''@'') ''no-at-sign.example.org'') \<noteq> 1" by simp
  from v valid_ada have "email_pattern ''a@b.com''" by blast
  moreover from w 2 have "\<not> isEmailValid ''no-at-sign.example.org''" by blast
  ultimately show ?thesis using valid_ada by blast
qed

subsection \<open>C7: the responses of DELETE\<close>

text \<open>
  C7: for every DELETE request the handler reads \<open>email\<close> from the query string and
  sends one delete call whose key is that string as it is: the parameter's value when it
  is there, the empty string when it is not. It returns HTTP 200 with the store's output
  whenever the call succeeds, whatever the table holds, and HTTP 400 with
  \<open>Could not delete item\<close> exactly when the call fails.
\<close>

theorem delete_responses:
  assumes "HTTPMethod req = ''DELETE''"
    and "QueryStringParameters req ''email'' = Some email \<or>
         QueryStringParameters req ''email'' = None \<and> email = []"
  shows "(DeleteItem c (DeleteItemInput [''email'' \<mapsto> S email] tableName) s = (Inr out, s') \<longrightarrow>
          handler unmarshal c req s =
            (Inr (envelope 200 (Marshalled (BodyDeleteItemOutput out))), s'))
       \<and> (DeleteItem c (DeleteItemInput [''email'' \<mapsto> S email] tableName) s = (Inl err, s') \<longrightarrow>
          handler unmarshal c req s = (Inr (errorResponse 400 ''Could not delete item''), s'))
       \<and> (fst (handler unmarshal c req s) = Inr (errorResponse 400 ''Could not delete item'')
            \<longleftrightarrow> (\<exists>e. fst (DeleteItem c (DeleteItemInput [''email'' \<mapsto> S email] tableName) s)
                       = Inl e))"
proof -
  let ?call = "DeleteItem c (DeleteItemInput [''email'' \<mapsto> S email] tableName) s"
  note k = deleteUser_key[OF assms(2)]
  note h = handler_DELETE[OF assms(1)]
  obtain r s2 where r: "?call = (r, s2)" by (cases ?call)
  have "fst (handler unmarshal c req s) = Inr (errorResponse 400 ''Could not delete item'')
            \<longleftrightarrow> (\<exists>e. fst ?call = Inl e)"
  proof (cases r)
    case (Inl e)
    with r deleteUser_failed[of c req s e s2] show ?thesis by (simp add: h k)
  next
    case (Inr out')
    with r deleteUser_ok[of c req s out' s2] show ?thesis
      by (simp add: h k errorResponse_def envelope_eq_iff)
  qed
  moreover have "?call = (Inr out, s') \<longrightarrow> handler unmarshal c req s =
            (Inr (envelope 200 (Marshalled (BodyDeleteItemOutput out))), s')"
    using deleteUser_ok[of c req s out s'] by (simp add: h k)
  moreover have "?call = (Inl err, s') \<longrightarrow> handler unmarshal c req s =
            (Inr (errorResponse 400 ''Could not delete item''), s')"
    using deleteUser_failed[of c req s err s'] by (simp add: h k)
  ultimately show ?thesis by blast
qed

theorem delete_responses_witness:
  "handler (decodes adaJSON ada) memClient (request ''DELETE'' [''email'' \<mapsto> ''a@b.com''] [])
      [(''a@b.com'', [''email'' \<mapsto> S ''a@b.com'', ''firstName'' \<mapsto> S ''Ada'',
         ''lastName'' \<mapsto> S ''Lovelace''])] =
     (Inr (envelope 200 (Marshalled (BodyDeleteItemOutput (DeleteItemOutput Map.empty)))), [])
   \<and> handler (decodes adaJSON ada) memClient
      (request ''DELETE'' [''email'' \<mapsto> ''nobody@example.com''] [])
      [(''a@b.com'', [''email'' \<mapsto> S ''a@b.com'', ''firstName'' \<mapsto> S ''Ada'',
         ''lastName'' \<mapsto> S ''Lovelace''])] =
     (Inr (envelope 200 (Marshalled (BodyDeleteItemOutput (DeleteItemOutput Map.empty)))),
      [(''a@b.com'', [''email'' \<mapsto> S ''a@b.com'', ''firstName'' \<mapsto> S ''Ada'',
         ''lastName'' \<mapsto> S ''Lovelace''])])
   \<and> handler (decodes adaJSON ada) memClient (request ''DELETE'' Map.empty [])
      [(''a@b.com'', [''email'' \<mapsto> S ''a@b.com'', ''firstName'' \<mapsto> S ''Ada'',
         ''lastName'' \<mapsto> S ''Lovelace''])] =
     (Inr (envelope 200 (Marshalled (BodyDeleteItemOutput (DeleteItemOutput Map.empty)))),
      [(''a@b.com'', [''email'' \<mapsto> S ''a@b.com'', ''firstName'' \<mapsto> S ''Ada'',
         ''lastName'' \<mapsto> S ''Lovelace''])])
   \<and> handler (decodes adaJSON ada) downClient
      (request ''DELETE'' [''email'' \<mapsto> ''a@b.com''] []) () =
     (Inr (errorResponse 400 ''Could not delete item''), ())"
proof -
  let ?t = "[(''a@b.com'', [''email'' \<mapsto> S ''a@b.com'', ''firstName'' \<mapsto> S ''Ada'',
         ''lastName'' \<mapsto> S ''Lovelace''])]"
  let ?ada = "request ''DELETE'' [''email'' \<mapsto> ''a@b.com''] []"
  let ?nobody = "request ''DELETE'' [''email'' \<mapsto> ''nobody@example.com''] []"
  let ?bare = "request ''DELETE'' Map.empty []"
  have del: "HTTPMethod (request ''DELETE'' q b) = ''DELETE''" for q b
    by (simp add: request_simps)
  have k1: "QueryStringParameters ?ada ''email'' = Some ''a@b.com'' \<or>
      QueryStringParameters ?ada ''email'' = None \<and> ''a@b.com'' = []"
    by (simp add: request_simps)
  have k2: "QueryStringParameters ?nobody ''email'' = Some ''nobody@example.com'' \<or>
      QueryStringParameters ?nobody ''email'' = None \<and> ''nobody@example.com'' = []"
    by (simp add: request_simps)
  have k3: "QueryStringParameters ?bare ''email'' = Some [] \<or>
      QueryStringParameters ?bare ''email'' = None \<and> ([] :: string) = []"
    by (simp add: request_simps)
  have 1: "DeleteItem memClient (DeleteItemInput [''email'' \<mapsto> S ''a@b.com''] tableName) ?t =
      (Inr (DeleteItemOutput Map.empty), [])"
    by (simp add: memClient_DeleteItem)
  have 2: "DeleteItem memClient (DeleteItemInput [''email'' \<mapsto> S ''nobody@example.com''] tableName) ?t =
      (Inr (DeleteItemOutput Map.empty), ?t)"
    by (simp add: memClient_DeleteItem)
  have 3: "DeleteItem memClient (DeleteItemInput [''email'' \<mapsto> S []] tableName) ?t =
      (Inr (DeleteItemOutput Map.empty), ?t)"
    by (simp add: memClient_DeleteItem)
  have 4: "DeleteItem downClient (DeleteItemInput [''email'' \<mapsto> S ''a@b.com''] tableName) () =
      (Inl RequestError, ())"
    by (simp add: downClient_calls)
  note d = delete_responses[where unmarshal = "decodes adaJSON ada"]
  note a = d[where c = memClient and req = ?ada and s = ?t, OF del k1,
      THEN conjunct1, rule_format, OF 1]
  note b = d[where c = memClient and req = ?nobody and s = ?t, OF del k2,
      THEN conjunct1, rule_format, OF 2]
  note c = d[where c = memClient and req = ?bare and s = ?t, OF del k3,
      THEN conjunct1, rule_format, OF 3]
  note e = d[where c = downClient and req = ?ada and s = "()", OF del k1,
      THEN conjunct2, THEN conjunct1, rule_format, OF 4]
  from a b c e show ?thesis by simp
qed

subsection \<open>C8: the round trip through the attribute format\<close>

text \<open>
  C8: for every user record, \<open>MarshalMap\<close> succeeds and \<open>UnmarshalMap\<close> of its
  result gives the record back, all three fields; so, on a store that returns the item
  it was given, creating a user and then fetching the same email returns the same
  record.
\<close>

theorem roundtrip_create_fetch:
  "(\<exists>av. MarshalMap u = Inr av \<and> UnmarshalMap av = Inr u)
   \<and> (HTTPMethod post = ''POST'' \<and> unmarshal (RequestBody post) = Inr u \<and> isEmailValid (Email u) \<and>
      HTTPMethod get = ''GET'' \<and> queryParam get ''email'' = Email u \<and>
      GetItem c (GetItemInput [''email'' \<mapsto> S (Email u)] tableName) s0 =
        (Inr (GetItemOutput Map.empty), s1) \<and>
      MarshalMap u = Inr av \<and> PutItem c (PutItemInput av tableName) s1 = (Inr out, s2) \<and>
      GetItem c (GetItemInput [''email'' \<mapsto> S (Email u)] tableName) s2 =
        (Inr (GetItemOutput av), s3)
      \<longrightarrow> handler unmarshal c post s0 = (Inr (envelope 201 (Literal ''null'')), s2)
        \<and> handler unmarshal c get s2 = (Inr (envelope 200 (Marshalled (BodyUser u))), s3))"
proof (intro conjI impI)
  show "\<exists>av. MarshalMap u = Inr av \<and> UnmarshalMap av = Inr u"
    using UnmarshalMap_MarshalMap[OF MarshalMap_total] MarshalMap_total by blast
next
  assume h: "HTTPMethod post = ''POST'' \<and> unmarshal (RequestBody post) = Inr u \<and> isEmailValid (Email u) \<and>
      HTTPMethod get = ''GET'' \<and> queryParam get ''email'' = Email u \<and>
      GetItem c (GetItemInput [''email'' \<mapsto> S (Email u)] tableName) s0 =
        (Inr (GetItemOutput Map.empty), s1) \<and>
      MarshalMap u = Inr av \<and> PutItem c (PutItemInput av tableName) s1 = (Inr out, s2) \<and>
      GetItem c (GetItemInput [''email'' \<mapsto> S (Email u)] tableName) s2 =
        (Inr (GetItemOutput av), s3)"
  have f: "fetchUser c (Email u) s0 = (Inr \<lparr>Email = [], FirstName = [], LastName = []\<rparr>, s1)"
    using h by (simp add: fetchUser_item UnmarshalMap_empty)
  show "handler unmarshal c post s0 = (Inr (envelope 201 (Literal ''null'')), s2)"
    using h createUser_created[where un = unmarshal and req = post and u = u, OF _ _ f]
    by (simp add: handler_POST)
  have ne: "queryParam get ''email'' \<noteq> []"
    using h isEmailValid_length[of "Email u"] by auto
  show "handler unmarshal c get s2 = (Inr (envelope 200 (Marshalled (BodyUser u))), s3)"
    using h ne showUser_found[where c = c and email = "Email u" and s = s2 and it = av and user = u]
    by (simp add: handler_GET getUser_show UnmarshalMap_MarshalMap)
qed

theorem roundtrip_create_fetch_witness:
  "(\<exists>av. MarshalMap ada = Inr av \<and> UnmarshalMap av = Inr ada)
   \<and> handler (decodes adaJSON ada) memClient (request ''POST'' Map.empty adaJSON) [] =
       (Inr (envelope 201 (Literal ''null'')),
        [(''a@b.com'', [''email'' \<mapsto> S ''a@b.com'', ''firstName'' \<mapsto> S ''Ada'',
           ''lastName'' \<mapsto> S ''Lovelace''])])
   \<and> handler (decodes adaJSON ada) memClient (request ''GET'' [''email'' \<mapsto> ''a@b.com''] [])
        [(''a@b.com'', [''email'' \<mapsto> S ''a@b.com'', ''firstName'' \<mapsto> S ''Ada'',
           ''lastName'' \<mapsto> S ''Lovelace''])] =
       (Inr (envelope 200 (Marshalled (BodyUser
          \<lparr>Email = ''a@b.com'', FirstName = ''Ada'', LastName = ''Lovelace''\<rparr>))),
        [(''a@b.com'', [''email'' \<mapsto> S ''a@b.com'', ''firstName'' \<mapsto> S ''Ada'',
           ''lastName'' \<mapsto> S ''Lovelace''])])"
proof -
  let ?av = "[''email'' \<mapsto> S ''a@b.com'', ''firstName'' \<mapsto> S ''Ada'', ''lastName'' \<mapsto> S ''Lovelace'']"
  let ?t = "[(''a@b.com'', ?av)]"
  let ?post = "request ''POST'' Map.empty adaJSON"
  let ?get = "request ''GET'' [''email'' \<mapsto> ''a@b.com''] []"
  have h: "HTTPMethod ?post = ''POST'' \<and> decodes adaJSON ada (RequestBody ?post) = Inr ada \<and>
      isEmailValid (Email ada) \<and> HTTPMethod ?get = ''GET'' \<and> queryParam ?get ''email'' = Email ada \<and>
      GetItem memClient (GetItemInput [''email'' \<mapsto> S (Email ada)] tableName) [] =
        (Inr (GetItemOutput Map.empty), []) \<and>
      MarshalMap ada = Inr ?av \<and>
      PutItem memClient (PutItemInput ?av tableName) [] = (Inr (PutItemOutput Map.empty), ?t) \<and>
      GetItem memClient (GetItemInput [''email'' \<mapsto> S (Email ada)] tableName) ?t =
        (Inr (GetItemOutput ?av), ?t)"
    by (simp add: request_simps decodes_hit Email_ada valid_ada queryParam_request
        memClient_GetItem MarshalMap_ada PutItem_memClient_ada)
  note r = roundtrip_create_fetch[where u = ada and unmarshal = "decodes adaJSON ada"
      and c = memClient and post = ?post and get = ?get and ?s0.0 = "[]" and ?s1.0 = "[]"
      and ?s2.0 = ?t and ?s3.0 = ?t and av = ?av and out = "PutItemOutput Map.empty"]
  from r[THEN conjunct1] r[THEN conjunct2, rule_format, OF h]
  show ?thesis by (simp add: ada_def)
qed

subsection \<open>C9: routing by method\<close>

text \<open>
  C9: the top-level handler picks one handler by the method string alone: GET goes to
  \<open>getUser\<close>, POST to \<open>createUser\<close>, PUT to \<open>updateUser\<close>, DELETE to
  \<open>deleteUser\<close>, and any other string gives HTTP 405 with the error body
  \<open>Method Not Allowed\<close>; the path of the request has no influence.
\<close>

theorem method_dispatch:
  "(HTTPMethod req = ''GET'' \<longrightarrow> handler unmarshal c req s = getUser c req s)
 \<and> (HTTPMethod req = ''POST'' \<longrightarrow> handler unmarshal c req s = createUser unmarshal c req s)
 \<and> (HTTPMethod req = ''PUT'' \<longrightarrow> handler unmarshal c req s = updateUser unmarshal c req s)
 \<and> (HTTPMethod req = ''DELETE'' \<longrightarrow> handler unmarshal c req s = deleteUser c req s)
 \<and> (HTTPMethod req \<notin> {''GET'', ''POST'', ''PUT'', ''DELETE''} \<longrightarrow>
      handler unmarshal c req s = (Inr (errorResponse 405 ''Method Not Allowed''), s))
 \<and> handler unmarshal c (req\<lparr>Path := p\<rparr>) s = handler unmarshal c req s"
  by (simp add: handler_GET handler_POST handler_PUT handler_DELETE handler_other handler_Path)

theorem method_dispatch_witness:
  "handler (decodes adaJSON ada) memClient (request ''PATCH'' Map.empty adaJSON) [] =
     (Inr (errorResponse 405 ''Method Not Allowed''), [])
   \<and> handler (decodes adaJSON ada) memClient (request ''get'' Map.empty []) [] =
     (Inr (errorResponse 405 ''Method Not Allowed''), [])
   \<and> handler (decodes adaJSON ada) memClient (request ''GET'' Map.empty []) [] =
       getUser memClient (request ''GET'' Map.empty []) []
   \<and> handler (decodes adaJSON ada) memClient (request ''POST'' Map.empty adaJSON) [] =
       createUser (decodes adaJSON ada) memClient (request ''POST'' Map.empty adaJSON) []
   \<and> handler (decodes adaJSON ada) memClient (request ''PUT'' Map.empty adaJSON) [] =
       updateUser (decodes adaJSON ada) memClient (request ''PUT'' Map.empty adaJSON) []
   \<and> handler (decodes adaJSON ada) memClient (request ''DELETE'' Map.empty []) [] =
       deleteUser memClient (request ''DELETE'' Map.empty []) []
   \<and> handler (decodes adaJSON ada) memClient
        ((request ''PATCH'' Map.empty adaJSON)\<lparr>Path := ''/users/7''\<rparr>) [] =
     (Inr (errorResponse 405 ''Method Not Allowed''), [])"
proof -
  note d = method_dispatch[where unmarshal = "decodes adaJSON ada" and c = memClient and s = "[]"]
  have 1: "HTTPMethod (request ''PATCH'' Map.empty adaJSON) \<notin> {''GET'', ''POST'', ''PUT'', ''DELETE''}"
    by (simp add: request_simps)
  have 2: "HTTPMethod (request ''get'' Map.empty []) \<notin> {''GET'', ''POST'', ''PUT'', ''DELETE''}"
    by (simp add: request_simps)
  note a = d[where req = "request ''PATCH'' Map.empty adaJSON", THEN conjunct2, THEN conjunct2,
        THEN conjunct2, THEN conjunct2, THEN conjunct1, rule_format, OF 1]
  note b = d[where req = "request ''get'' Map.empty []", THEN conjunct2, THEN conjunct2,
        THEN conjunct2, THEN conjunct2, THEN conjunct1, rule_format, OF 2]
  note g = d[where req = "request ''GET'' Map.empty []", THEN conjunct1, rule_format]
  note po = d[where req = "request ''POST'' Map.empty adaJSON", THEN conjunct2, THEN conjunct1,
        rule_format]
  note pu = d[where req = "request ''PUT'' Map.empty adaJSON", THEN conjunct2, THEN conjunct2,
        THEN conjunct1, rule_format]
  note de = d[where req = "request ''DELETE'' Map.empty []", THEN conjunct2, THEN conjunct2,
        THEN conjunct2, THEN conjunct1, rule_format]
  note pa = d[where req = "request ''PATCH'' Map.empty adaJSON" and p = "''/users/7''",
        THEN conjunct2, THEN conjunct2, THEN conjunct2, THEN conjunct2, THEN conjunct2]
  from a b g po pu de pa show ?thesis by (simp add: request_simps)
qed

subsection \<open>C10: package \<open>user\<close> and the main file\<close>

text \<open>
  C10: with the table name of the main file, and the validator of the main file as the
  package's \<open>isEmailValid\<close>, each function of package \<open>user\<close> does what its
  counterpart in the main file does, for every request, client and state of the store:
  both leave the store in the same state; the package function returns a record (or nil,
  for \<open>DeleteUser\<close>) exactly when the handler returns its success response, and that
  record is the decoded body, the one that was written; each error of the package
  function is returned exactly when the handler returns the response of the same kind;
  and one panics exactly when the other does.
\<close>

theorem package_matches_main:
  "(snd (FetchUser e tableName c s) = snd (fetchUser c e s)
    \<and> (\<forall>u. fst (FetchUser e tableName c s) = Inr u \<longleftrightarrow> fst (fetchUser c e s) = Inr u)
    \<and> (fst (FetchUser e tableName c s) = Inl (errors_New ''failed to fetch record'')
         \<longleftrightarrow> fst (fetchUser c e s) = Inl \<lparr>ErrorMsg = Some ''Failed to fetch record''\<rparr>)
    \<and> (fst (FetchUser e tableName c s) = Inl (errors_New ''failed to unmarshal record'')
         \<longleftrightarrow> fst (fetchUser c e s) = Inl \<lparr>ErrorMsg = Some ''Failed to unmarshal record''\<rparr>))
 \<and> (let X = CreateUser isEmailValid unmarshal req tableName c s;
        Y = createUser unmarshal c req s
    in snd X = snd Y
     \<and> (fst X = Inl NilPointerDereference \<longleftrightarrow> fst Y = Inl NilPointerDereference)
     \<and> ((\<exists>u. fst X = Inr (Inr u)) \<longleftrightarrow> fst Y = Inr (envelope 201 (Literal ''null'')))
     \<and> (\<forall>u. fst X = Inr (Inr u) \<longrightarrow> unmarshal (RequestBody req) = Inr u)
     \<and> (fst X = Inr (Inl (errors_New ''invalid user data''))
          \<longleftrightarrow> fst Y = Inr (errorResponse 422 ''Invalid User Data''))
     \<and> (fst X = Inr (Inl (errors_New ''invalid email''))
          \<longleftrightarrow> fst Y = Inr (errorResponse 400 ''Invalid Email''))
     \<and> (fst X = Inr (Inl (errors_New ''user.User already exists''))
          \<longleftrightarrow> fst Y = Inr (errorResponse 400 ''User already exists''))
     \<and> (fst X = Inr (Inl (errors_New ''could not marshal item''))
          \<longleftrightarrow> fst Y = Inr (errorResponse 400 ''Could not marshal item''))
     \<and> (fst X = Inr (Inl (errors_New ''could not dynamo put item error''))
          \<longleftrightarrow> fst Y = Inr (errorResponse 400 ''Could not Dynamo Put Item Error'')))
 \<and> (let X = UpdateUser unmarshal req tableName c s;
        Y = updateUser unmarshal c req s
    in snd X = snd Y
     \<and> (fst X = Inl NilPointerDereference \<longleftrightarrow> fst Y = Inl NilPointerDereference)
     \<and> ((\<exists>u. fst X = Inr (Inr u)) \<longleftrightarrow> fst Y = Inr (envelope 201 (Literal ''null'')))
     \<and> (\<forall>u. fst X = Inr (Inr u) \<longrightarrow> unmarshal (RequestBody req) = Inr u)
     \<and> (fst X = Inr (Inl (errors_New ''invalid email''))
          \<longleftrightarrow> fst Y = Inr (errorResponse 422 ''Invalid Email''))
     \<and> (fst X = Inr (Inl (errors_New ''user.User does not exist''))
          \<longleftrightarrow> fst Y = Inr (errorResponse 400 ''User does not exist''))
     \<and> (fst X = Inr (Inl (errors_New ''could not marshal item''))
          \<longleftrightarrow> fst Y = Inr (errorResponse 400 ''Could not marshal item''))
     \<and> (fst X = Inr (Inl (errors_New ''could not dynamo put item error''))
          \<longleftrightarrow> fst Y = Inr (errorResponse 400 ''Could not Dynamo Put Item Error'')))
 \<and> (let X = DeleteUser req tableName c s;
        Y = deleteUser c req s
    in snd X = snd Y
     \<and> (fst X = None
          \<longleftrightarrow> (\<exists>out. fst Y = Inr (envelope 200 (Marshalled (BodyDeleteItemOutput out)))))
     \<and> (fst X = Some (errors_New ''could not delete item'')
          \<longleftrightarrow> fst Y = Inr (errorResponse 400 ''Could not delete item'')))"
  using fetch_equiv[of e c s] create_equiv[of unmarshal req c s] update_equiv[of unmarshal req c s]
    delete_equiv[of req c s]
  by blast

theorem package_matches_main_witness:
  "fst (CreateUser isEmailValid (decodes adaJSON ada) (request ''POST'' Map.empty adaJSON)
          tableName memClient []) = Inr (Inr ada)
   \<and> snd (CreateUser isEmailValid (decodes adaJSON ada) (request ''POST'' Map.empty adaJSON)
          tableName memClient []) =
       [(''a@b.com'', [''email'' \<mapsto> S ''a@b.com'', ''firstName'' \<mapsto> S ''Ada'',
          ''lastName'' \<mapsto> S ''Lovelace''])]
   \<and> fst (CreateUser isEmailValid (decodes adaJSON ada) (request ''POST'' Map.empty adaJSON)
          tableName downClient ()) = Inl NilPointerDereference
   \<and> fst (DeleteUser (request ''DELETE'' [''email'' \<mapsto> ''a@b.com''] []) tableName downClient ())
       = Some (errors_New ''could not delete item'')"
proof -
  let ?av = "[''email'' \<mapsto> S ''a@b.com'', ''firstName'' \<mapsto> S ''Ada'', ''lastName'' \<mapsto> S ''Lovelace'']"
  let ?post = "request ''POST'' Map.empty adaJSON"
  let ?del = "request ''DELETE'' [''email'' \<mapsto> ''a@b.com''] []"
  let ?X = "CreateUser isEmailValid (decodes adaJSON ada) ?post tableName memClient []"
  have body: "decodes adaJSON ada (RequestBody ?post) = Inr ada"
    by (simp add: request_simps decodes_hit)
  have valid: "isEmailValid (Email ada)" by (simp add: Email_ada valid_ada)
  have y: "createUser (decodes adaJSON ada) memClient ?post [] =
      (Inr (envelope 201 (Literal ''null'')), [(''a@b.com'', ?av)])"
    by (rule createUser_created[where un = "decodes adaJSON ada" and req = ?post and u = ada
          and c = memClient and s = "[]", OF body valid fetchUser_memClient_empty _
          MarshalMap_ada PutItem_memClient_ada]) simp
  have y': "createUser (decodes adaJSON ada) downClient ?post () = (Inl NilPointerDereference, ())"
    by (rule createUser_lookup_failed[where un = "decodes adaJSON ada" and req = ?post
          and u = ada, OF body valid])
       (rule fetchUser_fail, rule downClient_calls)
  have z: "deleteUser downClient ?del () = (Inr (errorResponse 400 ''Could not delete item''), ())"
    by (rule deleteUser_failed) (rule downClient_calls)
  note m = package_matches_main[where unmarshal = "decodes adaJSON ada" and req = ?post
      and c = memClient and s = "[]", THEN conjunct2, THEN conjunct1, unfolded Let_def]
  note d = package_matches_main[where unmarshal = "decodes adaJSON ada" and req = ?post
      and c = downClient and s = "()", THEN conjunct2, THEN conjunct1, unfolded Let_def]
  note e = package_matches_main[where req = ?del and c = downClient and s = "()",
      THEN conjunct2, THEN conjunct2, THEN conjunct2, unfolded Let_def]
  from m y obtain u where u: "fst ?X = Inr (Inr u)" by auto
  with m body have "u = ada" by auto
  with u have 1: "fst ?X = Inr (Inr ada)" by simp
  from m y have 2: "snd ?X = [(''a@b.com'', ?av)]" by simp
  from d y' have 3: "fst (CreateUser isEmailValid (decodes adaJSON ada) ?post tableName
      downClient ()) = Inl NilPointerDereference" by simp
  from e z have 4: "fst (DeleteUser ?del tableName downClient ()) =
      Some (errors_New ''could not delete item'')" by simp
  from 1 2 3 4 show ?thesis by simp
qed

end
